theory Spec2Isabelle
  imports Main "HOL-Library.AList"
begin

section \<open>JavaScript values and array operations used by the sources\<close>

text \<open>
  Strings are lists of characters; a character stands for one code unit of the source's
  strings (the Latin-1 range). Numbers that the sources use as symbol identifiers, indices
  and grid coordinates are integers.

  An exception of the source is a value of \<open>error\<close>. \<open>Error m\<close> is an \<open>Error\<close> object
  the repository's code throws, with its message \<open>m\<close>; \<open>TypeError\<close> and \<open>SyntaxError\<close>
  are the exceptions the engine throws (a property read on \<open>undefined\<close>, a call of
  something that is not a function, a malformed regular expression). Their message text
  is worded by the engine, so the model keeps the kind of the exception in its place.
\<close>

datatype error = Error string | TypeError | SyntaxError

text \<open>\<open>xs[i]\<close>: the element when \<open>i\<close> is an index of the array, \<open>undefined\<close> (\<open>None\<close>) otherwise.\<close>

definition js_index :: "'a list \<Rightarrow> int \<Rightarrow> 'a option" where
  "js_index xs i = (if 0 \<le> i \<and> i < int (length xs) then Some (xs ! nat i) else None)"

text \<open>
  \<open>xs.slice(start, end)\<close>: a negative argument counts from the end of the array, both
  arguments are clamped to \<open>0 .. length\<close>, and the result is empty when the clamped end
  is not after the clamped start. \<open>xs.slice(start)\<close> runs to the end of the array.
\<close>

definition js_relative :: "int \<Rightarrow> int \<Rightarrow> int" where
  "js_relative len k = (if k < 0 then max (len + k) 0 else min k len)"

definition js_slice :: "'a list \<Rightarrow> int \<Rightarrow> int \<Rightarrow> 'a list" where
  "js_slice xs start end' =
     (let len = int (length xs); k = js_relative len start; final = js_relative len end'
      in take (nat (final - k)) (drop (nat k) xs))"

definition js_slice_from :: "'a list \<Rightarrow> int \<Rightarrow> 'a list" where
  "js_slice_from xs start = js_slice xs start (int (length xs))"

section \<open>The encoding document (client)\<close>

text \<open>
  A \<open>bciAvId\<close> is either one number or an array whose elements are numbers and marker
  strings (\<open>[12335, "/", 8499]\<close>).
\<close>

datatype token = TNum int | TStr string

datatype BciAvIdType = Single int | Seq "token list"

record ModifierRecord =
  modifierId :: "token list"
  modifierGloss :: string
  isPrepended :: bool

text \<open>
  A payload of the encoding document. Its \<open>modifierInfo\<close> is a JavaScript array that
  \<open>ActionPostModifierCell\<close> extends in place with \<open>push\<close> and hands on to the replacement
  symbol, so the field holds the address of the array and the arrays live in a store
  (\<open>arrays\<close> below): two payloads with the same address share one array.
\<close>

type_synonym addr = nat

record EncodingType =
  id' :: string
  label :: string
  bciAvId :: BciAvIdType
  modifierInfo :: addr

record ContentSignalDataType =
  payloads :: "EncodingType list"
  caretPosition :: int

text \<open>
  The state the click handlers read and write: the value of the signal
  \<open>changeEncodingContents\<close>, the store of \<open>modifierInfo\<close> arrays, and the texts handed to
  \<open>speak\<close> so far.
\<close>

record client_state =
  changeEncodingContents :: ContentSignalDataType
  arrays :: "addr \<Rightarrow> ModifierRecord list"
  spoken :: "string list"

text \<open>What a reader of the document sees of a payload: its fields, with the contents of its array.\<close>

definition payload_value ::
  "(addr \<Rightarrow> ModifierRecord list) \<Rightarrow> EncodingType
     \<Rightarrow> string \<times> string \<times> BciAvIdType \<times> ModifierRecord list" where
  "payload_value h s = (id' s, label s, bciAvId s, h (modifierInfo s))"

text \<open>\<open>CommandClearEncoding\<close>: the click handler resets the document and speaks the label.\<close>

definition CommandClearEncoding_cellClicked :: "string \<Rightarrow> client_state \<Rightarrow> client_state" where
  "CommandClearEncoding_cellClicked lbl w =
     w\<lparr>changeEncodingContents := \<lparr>payloads = [], caretPosition = - 1\<rparr>,
       spoken := spoken w @ [lbl]\<rparr>"

subsection \<open>Indicator positions\<close>

text \<open>
  \<open>typeof b === "number" ? [b] : b\<close>, the normalisation \<open>ActionPostModifierCell\<close>
  applies to the \<open>bciAvId\<close> of its own options and of the symbol it edits.
\<close>

definition toArray :: "BciAvIdType \<Rightarrow> token list" where
  "toArray b = (case b of Single n \<Rightarrow> [TNum n] | Seq ts \<Rightarrow> ts)"

text \<open>
  Modelled from the spec: \<open>findIndicators\<close> of \<open>SvgUtils\<close> is not among the sources. The
  spec (4.3, \<open>findIndicatorPositions\<close>) has it scan the tokens left to right and return
  every index whose element belongs to the fixed indicator set; the set is the parameter
  \<open>isIndicator\<close>. A single number is scanned as the one-element sequence it stands for.
\<close>

definition findIndicators :: "(token \<Rightarrow> bool) \<Rightarrow> BciAvIdType \<Rightarrow> int list" where
  "findIndicators isIndicator b =
     map int (filter (\<lambda>i. isIndicator (toArray b ! i)) [0 ..< length (toArray b)])"

text \<open>
  \<open>caretSymbolIndicatorPosition\<close> of \<open>ActionRemoveIndicatorCell.ts\<close>, over any
  \<open>findIndicators\<close>. With a non-empty document the caret payload is read; when the caret
  is not an index, \<open>payloads[caretPosition]\<close> is \<open>undefined\<close> and reading its \<open>bciAvId\<close>
  throws.
\<close>

definition caretSymbolIndicatorPosition ::
  "(BciAvIdType \<Rightarrow> int list) \<Rightarrow> ContentSignalDataType \<Rightarrow> error + int" where
  "caretSymbolIndicatorPosition findInd symbols =
     (if length (payloads symbols) \<noteq> 0 then
        (case js_index (payloads symbols) (caretPosition symbols) of
           None \<Rightarrow> Inl TypeError
         | Some s \<Rightarrow>
             (case findInd (bciAvId s) of [] \<Rightarrow> Inr (- 1) | p # _ \<Rightarrow> Inr p))
      else Inr (- 1))"

subsection \<open>Removing an indicator\<close>

text \<open>
  \<open>cellClicked\<close> of \<open>ActionRemoveIndicatorCell\<close>; \<open>pid\<close> is \<open>props.id\<close>. A \<open>bciAvId\<close> that
  is a number has no \<open>slice\<close>, so the call throws.
\<close>

definition ActionRemoveIndicatorCell_cellClicked ::
  "(BciAvIdType \<Rightarrow> int list) \<Rightarrow> string \<Rightarrow> client_state \<Rightarrow> error + client_state" where
  "ActionRemoveIndicatorCell_cellClicked findInd pid w =
     (let doc = changeEncodingContents w in
      case caretSymbolIndicatorPosition findInd doc of
        Inl e \<Rightarrow> Inl e
      | Inr indicatorIndex \<Rightarrow>
          (case js_index (payloads doc) (caretPosition doc) of
             None \<Rightarrow> Inl TypeError
           | Some symbolToEdit \<Rightarrow>
               (case bciAvId symbolToEdit of
                  Single n \<Rightarrow> Inl TypeError
                | Seq ts \<Rightarrow>
                    (let newBciAvId =
                           js_slice ts 0 (indicatorIndex - 1) @ js_slice_from ts (indicatorIndex + 1);
                         newSymbol =
                           \<lparr>id' = id' symbolToEdit @ pid, label = label symbolToEdit,
                            bciAvId = Seq newBciAvId, modifierInfo = modifierInfo symbolToEdit\<rparr>
                     in Inr (w\<lparr>changeEncodingContents :=
                                  \<lparr>payloads = (payloads doc)[nat (caretPosition doc) := newSymbol],
                                   caretPosition = caretPosition doc\<rparr>,
                                spoken := spoken w @ [label symbolToEdit]\<rparr>)))))"

text \<open>
  The button is rendered with \<open>disabled = (indicatorPosition === -1)\<close>, and a disabled
  button dispatches no click: pressing it leaves the state as it is.
\<close>

definition ActionRemoveIndicatorCell_disabled ::
  "(BciAvIdType \<Rightarrow> int list) \<Rightarrow> client_state \<Rightarrow> error + bool" where
  "ActionRemoveIndicatorCell_disabled findInd w =
     (case caretSymbolIndicatorPosition findInd (changeEncodingContents w) of
        Inl e \<Rightarrow> Inl e
      | Inr indicatorPosition \<Rightarrow> Inr (indicatorPosition = - 1))"

definition ActionRemoveIndicatorCell_press ::
  "(BciAvIdType \<Rightarrow> int list) \<Rightarrow> string \<Rightarrow> client_state \<Rightarrow> error + client_state" where
  "ActionRemoveIndicatorCell_press findInd pid w =
     (case ActionRemoveIndicatorCell_disabled findInd w of
        Inl e \<Rightarrow> Inl e
      | Inr disabled \<Rightarrow>
          if disabled then Inr w else ActionRemoveIndicatorCell_cellClicked findInd pid w)"

subsection \<open>Appending a modifier\<close>

text \<open>
  The properties of an \<open>ActionPostModifierCell\<close> that its click handler reads: \<open>props.id\<close>,
  \<open>props.options.label\<close> and \<open>props.options.bciAvId\<close> (the grid position only styles the
  button).
\<close>

record ModifierCellProps =
  props_id :: string
  options_label :: string
  options_bciAvId :: BciAvIdType

text \<open>
  \<open>cellClicked\<close> of \<open>ActionPostModifierCell\<close>. The record is pushed onto the array of the
  symbol at the caret, and the replacement symbol keeps that array.
\<close>

definition ActionPostModifierCell_cellClicked ::
  "ModifierCellProps \<Rightarrow> client_state \<Rightarrow> error + client_state" where
  "ActionPostModifierCell_cellClicked props w =
     (let modifierBciAvId = toArray (options_bciAvId props);
          doc = changeEncodingContents w in
      case js_index (payloads doc) (caretPosition doc) of
        None \<Rightarrow> Inl TypeError
      | Some symbolToEdit \<Rightarrow>
          (let newBciAvId = toArray (bciAvId symbolToEdit) @ [TStr ''/''] @ modifierBciAvId;
               a = modifierInfo symbolToEdit;
               pushed = (arrays w)(a := arrays w a @
                          [\<lparr>modifierId = modifierBciAvId, modifierGloss = options_label props,
                            isPrepended = False\<rparr>]);
               newSymbol =
                 \<lparr>id' = id' symbolToEdit @ props_id props,
                  label = options_label props @ '' '' @ label symbolToEdit,
                  bciAvId = Seq newBciAvId, modifierInfo = a\<rparr>
           in Inr (w\<lparr>changeEncodingContents :=
                        \<lparr>payloads = (payloads doc)[nat (caretPosition doc) := newSymbol],
                         caretPosition = caretPosition doc\<rparr>,
                      arrays := pushed,
                      spoken := spoken w @ [options_label props @ '' '' @ label symbolToEdit]\<rparr>)))"

definition ActionPostModifierCell_disabled :: "client_state \<Rightarrow> bool" where
  "ActionPostModifierCell_disabled w = (length (payloads (changeEncodingContents w)) = 0)"

section \<open>The palette generator\<close>

subsection \<open>Numbers read from strings\<close>

text \<open>
  A JavaScript number that holds an identifier is an integer or \<open>NaN\<close>. The integer is
  kept exactly; the source's numbers are doubles, which agree with it up to \<open>2^53\<close>.
\<close>

datatype jsnumber = Num int | NaN

definition isStrWhiteSpaceChar :: "char \<Rightarrow> bool" where
  "isStrWhiteSpaceChar c =
     (c \<in> set [CHR 0x09, CHR 0x0A, CHR 0x0B, CHR 0x0C, CHR 0x0D, CHR 0x20, CHR 0xA0])"

definition digit_of :: "char \<Rightarrow> nat option" where
  "digit_of c =
     (let n = (of_char c :: nat) in
      if 48 \<le> n \<and> n \<le> 57 then Some (n - 48)
      else if 97 \<le> n \<and> n \<le> 122 then Some (n - 87)
      else if 65 \<le> n \<and> n \<le> 90 then Some (n - 55)
      else None)"

definition radix_digit :: "nat \<Rightarrow> char \<Rightarrow> bool" where
  "radix_digit R c = (case digit_of c of Some d \<Rightarrow> d < R | None \<Rightarrow> False)"

definition digit_value :: "char \<Rightarrow> nat" where
  "digit_value c = (case digit_of c of Some d \<Rightarrow> d | None \<Rightarrow> 0)"

text \<open>
  \<open>parseInt(string)\<close> with no radix: leading white space is skipped, a sign is read, a
  prefix \<open>0x\<close> or \<open>0X\<close> selects radix 16, and the longest run of digits of the radix is
  the value; whatever follows the digits is ignored, and \<open>NaN\<close> is returned when there
  is no digit.
\<close>

definition parseInt :: "string \<Rightarrow> jsnumber" where
  "parseInt inputString =
     (let S = dropWhile isStrWhiteSpaceChar inputString;
          sign = (if S \<noteq> [] \<and> hd S = CHR ''-'' then - 1 else 1 :: int);
          S1 = (if S \<noteq> [] \<and> (hd S = CHR ''+'' \<or> hd S = CHR ''-'') then tl S else S);
          hex = (take 2 S1 = ''0x'' \<or> take 2 S1 = ''0X'');
          R = (if hex then 16 else 10 :: nat);
          S2 = (if hex then drop 2 S1 else S1);
          Z = takeWhile (radix_digit R) S2
      in if Z = [] then NaN
         else Num (sign * int (foldl (\<lambda>v c. v * R + digit_value c) 0 Z)))"

subsection \<open>The gloss entries\<close>

text \<open>
  An entry of the fetched gloss array. Its \<open>id\<close> arrives as a number or as a string; the
  sources read it with \<open>parseInt(gloss.id)\<close> in one place and compare it with \<open>===\<close> to a
  string in another. \<open>parseInt\<close> of a number reads the digits of its decimal notation
  back, which gives the number itself (for integers below \<open>10^21\<close>).
\<close>

datatype jsId = IdNumber int | IdString string

record GlossEntry =
  gloss_id :: jsId
  description :: string

definition parseInt_id :: "jsId \<Rightarrow> jsnumber" where
  "parseInt_id i = (case i of IdNumber n \<Rightarrow> Num n | IdString s \<Rightarrow> parseInt s)"

text \<open>\<open>entry.id === bciAvId\<close> with \<open>bciAvId\<close> a string: strict equality never holds between a number and a string.\<close>

definition strict_equals_string :: "jsId \<Rightarrow> string \<Rightarrow> bool" where
  "strict_equals_string i s = (case i of IdNumber n \<Rightarrow> False | IdString t \<Rightarrow> t = s)"

subsection \<open>The word-match regular expression\<close>

text \<open>
  \<open>new RegExp("\\b" + label + "\\b")\<close> takes the label as pattern source. The model
  follows the ECMAScript semantics (no flags) for the labels whose characters are pattern
  characters or the wildcard \<open>.\<close>:
  \<^item> a pattern character matches itself, \<open>.\<close> matches every character but a line
    terminator;
  \<^item> \<open>\\b\<close> holds at a position when exactly one of the characters before and after it
    is a word character (\<open>a-z\<close>, \<open>A-Z\<close>, \<open>0-9\<close>, \<open>_\<close>); there is no character before
    position 0 and none at the end of the input;
  \<^item> \<open>test\<close> tries every start position of the input.

  A label with an opening parenthesis and no closing one (and no class or escape that
  could hold it) is a malformed pattern: the constructor throws a \<open>SyntaxError\<close>. For
  every other label the regular expression engine is the parameter \<open>engine\<close>, which maps
  the pattern source to its \<open>test\<close> function, or to \<open>None\<close> when the constructor throws.
\<close>

definition isWordChar :: "char \<Rightarrow> bool" where
  "isWordChar c =
     (let n = (of_char c :: nat) in
      (48 \<le> n \<and> n \<le> 57) \<or> (65 \<le> n \<and> n \<le> 90) \<or> n = 95 \<or> (97 \<le> n \<and> n \<le> 122))"

definition isLineTerminator :: "char \<Rightarrow> bool" where
  "isLineTerminator c = (c = CHR 0x0A \<or> c = CHR 0x0D)"

definition syntaxCharacters :: "char list" where
  "syntaxCharacters =
     [CHR ''^'', CHR ''$'', CHR 0x5C, CHR ''.'', CHR ''*'', CHR ''+'', CHR ''?'', CHR ''('',
      CHR '')'', CHR ''['', CHR '']'', CHR ''{'', CHR ''}'', CHR ''|'']"

datatype atom = PatternCharacter char | Wildcard

definition atom_of :: "char \<Rightarrow> atom" where
  "atom_of c = (if c = CHR ''.'' then Wildcard else PatternCharacter c)"

definition atom_matches :: "atom \<Rightarrow> char \<Rightarrow> bool" where
  "atom_matches a c = (case a of PatternCharacter x \<Rightarrow> c = x | Wildcard \<Rightarrow> \<not> isLineTerminator c)"

definition word_before :: "string \<Rightarrow> nat \<Rightarrow> bool" where
  "word_before input e = (0 < e \<and> e \<le> length input \<and> isWordChar (input ! (e - 1)))"

definition word_at :: "string \<Rightarrow> nat \<Rightarrow> bool" where
  "word_at input e = (e < length input \<and> isWordChar (input ! e))"

definition word_boundary :: "string \<Rightarrow> nat \<Rightarrow> bool" where
  "word_boundary input e = (word_before input e \<noteq> word_at input e)"

definition matches_at :: "atom list \<Rightarrow> string \<Rightarrow> nat \<Rightarrow> bool" where
  "matches_at atoms input i =
     (word_boundary input i \<and> i + length atoms \<le> length input
      \<and> list_all2 atom_matches atoms (take (length atoms) (drop i input))
      \<and> word_boundary input (i + length atoms))"

definition regexp_test :: "atom list \<Rightarrow> string \<Rightarrow> bool" where
  "regexp_test atoms input = list_ex (matches_at atoms input) [0 ..< Suc (length input)]"

type_synonym regexp_engine = "string \<Rightarrow> (string \<Rightarrow> bool) option"

definition wordMatchRegExp :: "regexp_engine \<Rightarrow> string \<Rightarrow> error + (string \<Rightarrow> bool)" where
  "wordMatchRegExp engine label' =
     (if list_all (\<lambda>c. c = CHR ''.'' \<or> c \<notin> set syntaxCharacters) label' then
        Inr (regexp_test (map atom_of label'))
      else if CHR ''('' \<in> set label' \<and> CHR '')'' \<notin> set label' \<and> CHR ''['' \<notin> set label'
              \<and> CHR 0x5C \<notin> set label' then
        Inl SyntaxError
      else
        (case engine ([CHR 0x5C, CHR ''b''] @ label' @ [CHR 0x5C, CHR ''b'']) of
           None \<Rightarrow> Inl SyntaxError
         | Some test \<Rightarrow> Inr test))"

subsection \<open>Resolving a label\<close>

record MatchType =
  match_bciAvId :: jsnumber
  match_label :: string

text \<open>
  The special encodings are a configurable object from labels to a number or an array
  (\<open>"specialLabel1": 12345\<close>, \<open>"specialLabel2": [12345, "/", 23456]\<close>); the table of the
  source is empty. \<open>label in specialEncodings\<close> also holds for the property names every
  object inherits from \<open>Object.prototype\<close>, whose values are functions and objects.
\<close>

datatype SpecialValue = EncNumber int | EncArray "token list"

datatype Found = Matches "MatchType list" | Special SpecialValue | Inherited

definition Object_prototype_keys :: "string list" where
  "Object_prototype_keys =
     [''constructor'', ''__defineGetter__'', ''__defineSetter__'', ''hasOwnProperty'',
      ''__lookupGetter__'', ''__lookupSetter__'', ''isPrototypeOf'', ''propertyIsEnumerable'',
      ''toString'', ''valueOf'', ''__proto__'', ''toLocaleString'']"

definition js_in :: "string \<Rightarrow> (string \<rightharpoonup> SpecialValue) \<Rightarrow> bool" where
  "js_in k obj = (obj k \<noteq> None \<or> k \<in> set Object_prototype_keys)"

definition js_get :: "(string \<rightharpoonup> SpecialValue) \<Rightarrow> string \<Rightarrow> Found" where
  "js_get obj k = (case obj k of Some v \<Rightarrow> Special v | None \<Rightarrow> Inherited)"

text \<open>
  The loop of \<open>findBciAvId\<close> over the glosses, with the array \<open>matches\<close> it pushes onto.
  The regular expression is built anew for every gloss, before the comparison.
\<close>

fun forGloss ::
  "regexp_engine \<Rightarrow> string \<Rightarrow> GlossEntry list \<Rightarrow> MatchType list \<Rightarrow> error + MatchType list" where
  "forGloss engine label' [] matches' = Inr matches'"
| "forGloss engine label' (gloss # rest) matches' =
     (case wordMatchRegExp engine label' of
        Inl e \<Rightarrow> Inl e
      | Inr wordMatch \<Rightarrow>
          forGloss engine label' rest
            (if label' = description gloss \<or> wordMatch (description gloss)
             then matches' @ [\<lparr>match_bciAvId = parseInt_id (gloss_id gloss),
                              match_label = description gloss\<rparr>]
             else matches'))"

text \<open>
  \<open>findBciAvId(label, blissGlosses)\<close>. The glosses are \<open>None\<close> when the module variable
  \<open>bliss_gloss\<close> is still \<open>undefined\<close> (nothing fetched): iterating it throws.
\<close>

definition findBciAvId ::
  "regexp_engine \<Rightarrow> (string \<rightharpoonup> SpecialValue) \<Rightarrow> string \<Rightarrow> GlossEntry list option
     \<Rightarrow> error + Found" where
  "findBciAvId engine specialEncodings label' blissGlosses =
     (if js_in label' specialEncodings then Inr (js_get specialEncodings label')
      else
        (case blissGlosses of
           None \<Rightarrow> Inl TypeError
         | Some glosses \<Rightarrow>
             (case forGloss engine label' glosses [] of
                Inl e \<Rightarrow> Inl e
              | Inr matches' \<Rightarrow>
                  if length matches' = 0
                  then Inl (Error (''BciAvId not found for label: '' @ label'))
                  else Inr (Matches matches'))))"

text \<open>\<open>findByBciAvId(bciAvId, blissGlosses)\<close>: \<open>find\<close> with \<open>entry.id === bciAvId\<close>.\<close>

definition findByBciAvId :: "string \<Rightarrow> GlossEntry list option \<Rightarrow> error + GlossEntry" where
  "findByBciAvId bciAvId' blissGlosses =
     (case blissGlosses of
        None \<Rightarrow> Inl TypeError
      | Some glosses \<Rightarrow>
          (case find (\<lambda>entry. strict_equals_string (gloss_id entry) bciAvId') glosses of
             None \<Rightarrow> Inl (Error (''BciAvId not found for BCI AV ID: '' @ bciAvId'))
           | Some theEntry \<Rightarrow> Inr theEntry))"

subsection \<open>Building the palette\<close>

datatype CellBciAvId = CellNumber jsnumber | CellUndefined | CellArray "token list"

record CellOptions =
  cell_label :: string
  cell_bciAvId :: CellBciAvId
  rowStart :: int
  rowSpan :: int
  columnStart :: int
  columnSpan :: int

record PaletteCell =
  cell_type :: string
  options :: CellOptions

definition BLANK_CELL_LABEL :: string where
  "BLANK_CELL_LABEL = ''BLANK''"

definition palette_name :: string where
  "palette_name = ''No name Palette''"

definition cell_type_option :: string where
  "cell_type_option = ''ActionBmwCodeCell''"

definition not_found_bciAvId :: "token list" where
  "not_found_bciAvId =
     [TNum 15733, TStr ''/'', TNum 14133, TStr '';'', TNum 9004, TStr ''/'', TNum 25570]"

text \<open>
  \<open>matches[0].bciAvId\<close> on what \<open>findBciAvId\<close> returned. A special encoding is not an array
  of matches: element 0 of a number, a function or an empty array is \<open>undefined\<close>, whose
  property read throws, and element 0 of an encoding array is a number or a string,
  which has no \<open>bciAvId\<close>.
\<close>

definition first_bciAvId :: "Found \<Rightarrow> error + CellBciAvId" where
  "first_bciAvId found =
     (case found of
        Matches ms \<Rightarrow> (case ms of [] \<Rightarrow> Inl TypeError | m # _ \<Rightarrow> Inr (CellNumber (match_bciAvId m)))
      | Special v \<Rightarrow>
          (case v of
             EncNumber n \<Rightarrow> Inl TypeError
           | EncArray ts \<Rightarrow> (case ts of [] \<Rightarrow> Inl TypeError | t # _ \<Rightarrow> Inr CellUndefined))
      | Inherited \<Rightarrow> Inl TypeError)"

text \<open>
  The \<open>try\<close> block of \<open>processPaletteLabels\<close> for one label. It returns the cell and the
  label matches it pushes, or the exception together with the cell as the block left it.
\<close>

definition try_block ::
  "regexp_engine \<Rightarrow> (string \<rightharpoonup> SpecialValue) \<Rightarrow> GlossEntry list option \<Rightarrow> string \<Rightarrow> PaletteCell
     \<Rightarrow> (error \<times> PaletteCell) + (PaletteCell \<times> (string \<times> Found) list)" where
  "try_block engine specialEncodings bliss_gloss' label' cell =
     (let cell1 = cell\<lparr>options := (options cell)\<lparr>cell_bciAvId := CellNumber (parseInt label')\<rparr>\<rparr> in
      if parseInt label' \<noteq> NaN then
        (case findByBciAvId label' bliss_gloss' of
           Inl e \<Rightarrow> Inl (e, cell1)
         | Inr glossEntry \<Rightarrow>
             Inr (cell1\<lparr>options := (options cell1)\<lparr>cell_label := description glossEntry\<rparr>\<rparr>, []))
      else
        (case findBciAvId engine specialEncodings label' bliss_gloss' of
           Inl e \<Rightarrow> Inl (e, cell1)
         | Inr matches' \<Rightarrow>
             (case first_bciAvId matches' of
                Inl e \<Rightarrow> Inl (e, cell1)
              | Inr b \<Rightarrow>
                  Inr (cell1\<lparr>options := (options cell1)\<lparr>cell_bciAvId := b\<rparr>\<rparr>,
                       [(label', matches')]))))"

text \<open>
  The module variables of the generator (\<open>bliss_gloss\<close>, the shared array \<open>errors\<close>) and
  the number of identifiers \<open>uuidv4\<close> has handed out. \<open>uuidv4()\<close> never repeats an
  identifier: its n-th result is represented by \<open>n\<close>, and the key
  \<open>`${label}-${uuidv4()}`\<close> by the pair of the label and the identifier. \<open>errors\<close> holds
  the \<open>message\<close> of each caught exception, represented by the exception.
\<close>

record generator_globals =
  bliss_gloss :: "GlossEntry list option"
  errors :: "error list"
  uuid_calls :: nat

record build_locals =
  cells :: "((string \<times> nat) \<times> PaletteCell) list"
  matchByLabel :: "(string \<times> Found) list"

text \<open>The cell object created for a label, its \<open>bciAvId\<close> still \<open>undefined\<close>.\<close>

definition initial_cell :: "int \<Rightarrow> int \<Rightarrow> string \<Rightarrow> PaletteCell" where
  "initial_cell current_row current_column label' =
     \<lparr>cell_type = cell_type_option,
      options = \<lparr>cell_label = label', cell_bciAvId = CellUndefined,
                 rowStart = current_row, rowSpan = 1,
                 columnStart = current_column, columnSpan = 1\<rparr>\<rparr>"

text \<open>The body of the inner \<open>forEach\<close>: one label of the layout.\<close>

definition process_label ::
  "regexp_engine \<Rightarrow> (string \<rightharpoonup> SpecialValue) \<Rightarrow> int \<Rightarrow> int \<Rightarrow> int \<Rightarrow> string \<Rightarrow> int
     \<Rightarrow> build_locals \<times> generator_globals \<Rightarrow> build_locals \<times> generator_globals" where
  "process_label engine specialEncodings start_row start_column rowIndex label' colIndex st =
     (let (loc, g) = st;
          current_row = start_row + rowIndex;
          current_column = start_column + colIndex
      in if label' = BLANK_CELL_LABEL then st
         else
           (let cell = initial_cell current_row current_column label';
                key = (label', uuid_calls g)
            in case try_block engine specialEncodings (bliss_gloss g) label' cell of
                 Inr (cell', pushed) \<Rightarrow>
                   (loc\<lparr>cells := AList.update key cell' (cells loc),
                        matchByLabel := matchByLabel loc @ pushed\<rparr>,
                    g\<lparr>uuid_calls := uuid_calls g + 1\<rparr>)
               | Inl (e, cell') \<Rightarrow>
                   (loc\<lparr>cells :=
                          AList.update key
                            (cell'\<lparr>options := (options cell')
                                     \<lparr>cell_label := cell_label (options cell') @ '' NOT FOUND'',
                                      cell_bciAvId := CellArray not_found_bciAvId\<rparr>\<rparr>)
                            (cells loc)\<rparr>,
                    g\<lparr>errors := errors g @ [e], uuid_calls := uuid_calls g + 1\<rparr>)))"

text \<open>\<open>xs.forEach((x, index) => ...)\<close>, the index counted from \<open>i\<close>.\<close>

fun forEach :: "('a \<Rightarrow> int \<Rightarrow> 's \<Rightarrow> 's) \<Rightarrow> 'a list \<Rightarrow> int \<Rightarrow> 's \<Rightarrow> 's" where
  "forEach f [] i s = s"
| "forEach f (x # xs) i s = forEach f xs (i + 1) (f x i s)"

record PaletteJson =
  json_name :: string
  json_cells :: "((string \<times> nat) \<times> PaletteCell) list"

record build_result =
  paletteJson :: PaletteJson
  result_matches :: "(string \<times> Found) list"
  result_errors :: "error list"

text \<open>
  \<open>processPaletteLabels(palette_labels, start_row, start_column)\<close>, from the module state
  \<open>g\<close> to the returned object and the module state after the call. The returned
  \<open>errors\<close> is the shared array itself, here its contents at the return.
\<close>

definition processPaletteLabels ::
  "regexp_engine \<Rightarrow> (string \<rightharpoonup> SpecialValue) \<Rightarrow> string list list \<Rightarrow> int \<Rightarrow> int
     \<Rightarrow> generator_globals \<Rightarrow> build_result \<times> generator_globals" where
  "processPaletteLabels engine specialEncodings palette_labels start_row start_column g =
     (let (loc, g') =
            forEach
              (\<lambda>row rowIndex.
                 forEach (process_label engine specialEncodings start_row start_column rowIndex) row 0)
              palette_labels 0
              (\<lparr>cells = [], matchByLabel = []\<rparr>, g\<lparr>errors := []\<rparr>)
      in (\<lparr>paletteJson = \<lparr>json_name = palette_name, json_cells = cells loc\<rparr>,
           result_matches = matchByLabel loc, result_errors = errors g'\<rparr>, g'))"

section \<open>The gloss search form\<close>

text \<open>\<open>String.prototype.trim\<close>: white space and line terminators are removed at both ends.\<close>

definition trim :: "string \<Rightarrow> string" where
  "trim s = rev (dropWhile isStrWhiteSpaceChar (rev (dropWhile isStrWhiteSpaceChar s)))"

text \<open>The properties \<open>searchGloss\<close> renders \<open>GlossSearchPalette\<close> with.\<close>

record 'm GlossSearchPaletteProps =
  matches :: "'m list"
  noSearchTerm :: bool
  searchTerm :: string

text \<open>
  \<open>searchGloss\<close> of \<open>ActionSearchGloss\<close>, on the text of the search field. \<open>Number\<close> and
  \<open>isNaN\<close> are the built-in conversion and test on the numbers \<open>'n\<close> of the engine;
  \<open>findBciAvId\<close> and \<open>findCompositionsUsingId\<close> of \<open>BciAvUtils\<close> are not among the sources
  and are parameters: each returns its matches or throws.
\<close>

definition searchGloss ::
  "(string \<Rightarrow> 'n) \<Rightarrow> ('n \<Rightarrow> bool) \<Rightarrow> (string \<Rightarrow> 'e + 'm list) \<Rightarrow> ('n \<Rightarrow> 'e + 'm list) \<Rightarrow> string
     \<Rightarrow> 'e + 'm GlossSearchPaletteProps" where
  "searchGloss Number isNaN findBciAvId_client findCompositionsUsingId field =
     (let searchText = trim field in
      if length searchText = 0 then
        Inr \<lparr>matches = [], noSearchTerm = True, searchTerm = searchText\<rparr>
      else
        (let numberId = Number searchText in
         case (if isNaN numberId then findBciAvId_client searchText
               else findCompositionsUsingId numberId) of
           Inl e \<Rightarrow> Inl e
         | Inr found \<Rightarrow> Inr \<lparr>matches = found, noSearchTerm = False, searchTerm = searchText\<rparr>))"

section \<open>Notions used to state the properties\<close>

subsection \<open>Documents\<close>

text \<open>The payloads of a document own their arrays: no two hold the same address.\<close>

definition owns_arrays :: "ContentSignalDataType \<Rightarrow> bool" where
  "owns_arrays doc = distinct (map modifierInfo (payloads doc))"

subsection \<open>Whole words\<close>

text \<open>
  The spec's reading of a word match (4.2, 8): the description contains the label as a
  whole word. Written out on the text itself: the description splits into a part before
  the label, the label, and a part after it, with a word boundary on each side of the
  label (exactly one of the two characters next to the boundary is a word character;
  the start and the end of the description count as no character).
\<close>

definition ends_with_word :: "string \<Rightarrow> bool" where
  "ends_with_word s = (s \<noteq> [] \<and> isWordChar (last s))"

definition starts_with_word :: "string \<Rightarrow> bool" where
  "starts_with_word s = (s \<noteq> [] \<and> isWordChar (hd s))"

definition spec_contains_whole_word :: "string \<Rightarrow> string \<Rightarrow> bool" where
  "spec_contains_whole_word label' d =
     (\<exists>pre post. d = pre @ label' @ post
        \<and> ends_with_word pre \<noteq> starts_with_word (label' @ post)
        \<and> ends_with_word (pre @ label') \<noteq> starts_with_word post)"

text \<open>A label none of whose characters has a meaning in the syntax of regular expressions.\<close>

definition literal_label :: "string \<Rightarrow> bool" where
  "literal_label label' = list_all (\<lambda>c. c \<notin> set syntaxCharacters) label'"

text \<open>The match object pushed for a gloss.\<close>

definition match_of :: "GlossEntry \<Rightarrow> MatchType" where
  "match_of gloss = \<lparr>match_bciAvId = parseInt_id (gloss_id gloss), match_label = description gloss\<rparr>"

subsection \<open>The labels of a layout and their outcomes\<close>

text \<open>
  The labels of a layout with their row and column index, row by row, and those of them
  that are not blank: the labels a cell is emitted for, in the order of emission.
\<close>

fun indexed :: "'a list \<Rightarrow> int \<Rightarrow> (int \<times> 'a) list" where
  "indexed [] i = []"
| "indexed (x # xs) i = (i, x) # indexed xs (i + 1)"

definition layout_labels :: "string list list \<Rightarrow> int \<Rightarrow> (int \<times> int \<times> string) list" where
  "layout_labels palette_labels i =
     concat (map (\<lambda>(r, row). map (\<lambda>(c, l). (r, c, l)) (indexed row 0)) (indexed palette_labels i))"

definition is_label :: "int \<times> int \<times> string \<Rightarrow> bool" where
  "is_label pos = (snd (snd pos) \<noteq> BLANK_CELL_LABEL)"

definition non_blank :: "string list list \<Rightarrow> (int \<times> int \<times> string) list" where
  "non_blank palette_labels = filter is_label (layout_labels palette_labels 0)"

text \<open>
  What the \<open>try\<close> block does for the label at a position: \<open>attempt\<close> is its result on the
  cell created for the position, \<open>failure\<close> the exception it ends in, if any, \<open>emitted\<close>
  the cell stored for the position (after the \<open>catch\<close> block, for a failure) and
  \<open>pushed\<close> what it adds to the matches. \<open>not_found_cell\<close> is the placeholder the claim
  describes.
\<close>

definition not_found_cell :: "int \<Rightarrow> int \<Rightarrow> string \<Rightarrow> PaletteCell" where
  "not_found_cell current_row current_column l =
     \<lparr>cell_type = cell_type_option,
      options = \<lparr>cell_label = l @ '' NOT FOUND'', cell_bciAvId = CellArray not_found_bciAvId,
                 rowStart = current_row, rowSpan = 1,
                 columnStart = current_column, columnSpan = 1\<rparr>\<rparr>"

definition attempt ::
  "regexp_engine \<Rightarrow> (string \<rightharpoonup> SpecialValue) \<Rightarrow> GlossEntry list option \<Rightarrow> int \<Rightarrow> int
     \<Rightarrow> int \<times> int \<times> string \<Rightarrow> (error \<times> PaletteCell) + (PaletteCell \<times> (string \<times> Found) list)" where
  "attempt engine specialEncodings glosses start_row start_column pos =
     (case pos of (r, c, l) \<Rightarrow>
        try_block engine specialEncodings glosses l (initial_cell (start_row + r) (start_column + c) l))"

definition failure ::
  "regexp_engine \<Rightarrow> (string \<rightharpoonup> SpecialValue) \<Rightarrow> GlossEntry list option \<Rightarrow> int \<Rightarrow> int
     \<Rightarrow> int \<times> int \<times> string \<Rightarrow> error option" where
  "failure engine specialEncodings glosses start_row start_column pos =
     (case attempt engine specialEncodings glosses start_row start_column pos of
        Inl (e, cell') \<Rightarrow> Some e | Inr ok \<Rightarrow> None)"

definition emitted ::
  "regexp_engine \<Rightarrow> (string \<rightharpoonup> SpecialValue) \<Rightarrow> GlossEntry list option \<Rightarrow> int \<Rightarrow> int
     \<Rightarrow> int \<times> int \<times> string \<Rightarrow> PaletteCell" where
  "emitted engine specialEncodings glosses start_row start_column pos =
     (case attempt engine specialEncodings glosses start_row start_column pos of
        Inl (e, cell') \<Rightarrow>
          cell'\<lparr>options := (options cell')
                   \<lparr>cell_label := cell_label (options cell') @ '' NOT FOUND'',
                    cell_bciAvId := CellArray not_found_bciAvId\<rparr>\<rparr>
      | Inr (cell', ms) \<Rightarrow> cell')"

definition pushed ::
  "regexp_engine \<Rightarrow> (string \<rightharpoonup> SpecialValue) \<Rightarrow> GlossEntry list option \<Rightarrow> int \<Rightarrow> int
     \<Rightarrow> int \<times> int \<times> string \<Rightarrow> (string \<times> Found) list" where
  "pushed engine specialEncodings glosses start_row start_column pos =
     (case attempt engine specialEncodings glosses start_row start_column pos of
        Inl bad \<Rightarrow> [] | Inr (cell', ms) \<Rightarrow> ms)"

section \<open>Example inputs\<close>

text \<open>
  A document with one symbol, \<open>[12335, ";", 8993, "/", 8499]\<close>, whose indicator (taken
  to be the identifier 8993) stands at index 2 behind its marker; an empty document; and
  a modifier cell.
\<close>

definition example_indicator :: "token \<Rightarrow> bool" where
  "example_indicator t = (t = TNum 8993)"

definition example_symbol :: EncodingType where
  "example_symbol =
     \<lparr>id' = ''verb'', label = ''VERB'',
      bciAvId = Seq [TNum 12335, TStr '';'', TNum 8993, TStr ''/'', TNum 8499],
      modifierInfo = 0\<rparr>"

definition example_state :: client_state where
  "example_state =
     \<lparr>changeEncodingContents = \<lparr>payloads = [example_symbol], caretPosition = 0\<rparr>,
      arrays = (\<lambda>a. []), spoken = []\<rparr>"

definition empty_state :: client_state where
  "empty_state =
     \<lparr>changeEncodingContents = \<lparr>payloads = [], caretPosition = - 1\<rparr>,
      arrays = (\<lambda>a. []), spoken = []\<rparr>"

definition example_modifier :: ModifierCellProps where
  "example_modifier = \<lparr>props_id = ''plural'', options_label = ''PLURAL'', options_bciAvId = Single 9011\<rparr>"

text \<open>A document with two symbols that own their arrays, the caret on the second.\<close>

definition two_symbols :: client_state where
  "two_symbols =
     \<lparr>changeEncodingContents =
        \<lparr>payloads = [example_symbol,
                     \<lparr>id' = ''cat'', label = ''CAT'', bciAvId = Single 5, modifierInfo = 1\<rparr>],
         caretPosition = 1\<rparr>,
      arrays = (\<lambda>a. []), spoken = []\<rparr>"

text \<open>
  A symbol with two indicators (the identifiers 8993 and 8998, each behind its marker),
  the first at index 2 and the second at index 6.
\<close>

definition example_indicators :: "token \<Rightarrow> bool" where
  "example_indicators t = (t = TNum 8993 \<or> t = TNum 8998)"

definition two_indicators :: client_state where
  "two_indicators =
     \<lparr>changeEncodingContents =
        \<lparr>payloads = [\<lparr>id' = ''verb'', label = ''VERB'',
                       bciAvId = Seq [TNum 12335, TStr '';'', TNum 8993, TStr ''/'', TNum 8499,
                                      TStr '';'', TNum 8998],
                       modifierInfo = 0\<rparr>],
         caretPosition = 0\<rparr>,
      arrays = (\<lambda>a. []), spoken = []\<rparr>"

text \<open>
  The document of two symbols with the caret on the first, and a document whose two
  payloads hold the same \<open>modifierInfo\<close> array.
\<close>

definition two_symbols_first :: client_state where
  "two_symbols_first =
     \<lparr>changeEncodingContents =
        \<lparr>payloads = [example_symbol,
                     \<lparr>id' = ''cat'', label = ''CAT'', bciAvId = Single 5, modifierInfo = 1\<rparr>],
         caretPosition = 0\<rparr>,
      arrays = (\<lambda>a. []), spoken = []\<rparr>"

definition shared_arrays :: client_state where
  "shared_arrays =
     \<lparr>changeEncodingContents =
        \<lparr>payloads = [\<lparr>id' = ''dog'', label = ''DOG'', bciAvId = Single 7, modifierInfo = 0\<rparr>,
                     \<lparr>id' = ''cat'', label = ''CAT'', bciAvId = Single 5, modifierInfo = 0\<rparr>],
         caretPosition = 1\<rparr>,
      arrays = (\<lambda>a. []), spoken = []\<rparr>"

text \<open>
  An engine that rejects every pattern it is asked about; it is never consulted for a
  label whose characters are pattern characters or wildcards.
\<close>

definition no_engine :: regexp_engine where
  "no_engine = (\<lambda>pattern. None)"

text \<open>
  Gloss arrays: one entry \<open>cat\<close> with its id as a string and as a number, and two entries
  with the same description. The layout and the module state of the spec's batch
  scenario, with an error left over from an earlier call.
\<close>

definition cat_gloss :: "GlossEntry list" where
  "cat_gloss = [\<lparr>gloss_id = IdString ''5'', description = ''cat''\<rparr>]"

definition cat_gloss_number :: "GlossEntry list" where
  "cat_gloss_number = [\<lparr>gloss_id = IdNumber 5, description = ''cat''\<rparr>]"

definition two_cats :: "GlossEntry list" where
  "two_cats = [\<lparr>gloss_id = IdString ''1'', description = ''cat''\<rparr>,
               \<lparr>gloss_id = IdString ''2'', description = ''cat''\<rparr>]"

definition example_layout :: "string list list" where
  "example_layout = [[''BLANK'', ''cat''], [''7'', ''dog'']]"

definition example_globals :: generator_globals where
  "example_globals = \<lparr>bliss_gloss = Some cat_gloss, errors = [Error ''stale''], uuid_calls = 0\<rparr>"

text \<open>Stand-ins for \<open>Number\<close>, \<open>isNaN\<close> and the two searches of \<open>BciAvUtils\<close>.\<close>

definition example_Number :: "string \<Rightarrow> jsnumber" where
  "example_Number s = (if s = ''12'' then Num 12 else NaN)"

definition example_isNaN :: "jsnumber \<Rightarrow> bool" where
  "example_isNaN n = (n = NaN)"

definition example_label_search :: "string \<Rightarrow> error + string list" where
  "example_label_search s = Inr [''label '' @ s]"

definition example_id_search :: "jsnumber \<Rightarrow> error + string list" where
  "example_id_search n = Inr [''compositions using the id'']"

section \<open>Properties of the client edits\<close>

lemma js_slice_prefix:
  "0 \<le> k \<Longrightarrow> js_slice xs 0 k = take (nat k) xs"
  by (simp add: js_slice_def js_relative_def Let_def min_def)

lemma js_slice_from_drop:
  "0 \<le> k \<Longrightarrow> js_slice_from xs k = drop (nat k) xs"
  by (simp add: js_slice_from_def js_slice_def js_relative_def Let_def min_def)


lemma first_filter_upt_from:
  "filter P [m..<n] = k # r \<Longrightarrow> m \<le> k \<and> k < n \<and> P k \<and> (\<forall>j. m \<le> j \<and> j < k \<longrightarrow> \<not> P j)"
proof (induction "n - m" arbitrary: m)
  case 0
  then show ?case by simp
next
  case (Suc d)
  then have lt: "m < n" by arith
  then have unfold: "[m..<n] = m # [Suc m..<n]" by (rule upt_conv_Cons)
  show ?case
  proof (cases "P m")
    case True
    with Suc.prems unfold have "k = m" by simp
    with True lt show ?thesis by auto
  next
    case False
    with Suc.prems unfold have rest: "filter P [Suc m..<n] = k # r" by simp
    from Suc.hyps(2) have "d = n - Suc m" by arith
    from Suc.hyps(1) [OF this rest]
    have ih: "Suc m \<le> k \<and> k < n \<and> P k \<and> (\<forall>j. Suc m \<le> j \<and> j < k \<longrightarrow> \<not> P j)" .
    have "\<not> P j" if "m \<le> j" "j < k" for j
    proof (cases "j = m")
      case True with False show ?thesis by simp
    next
      case False
      with that ih show ?thesis by auto
    qed
    with ih show ?thesis by auto
  qed
qed

lemma first_filter_upt:
  "filter P [0..<n] = k # r \<Longrightarrow> k < n \<and> P k \<and> (\<forall>j<k. \<not> P j)"
  using first_filter_upt_from [of P 0 n k r] by simp

lemma split_two:
  assumes "1 \<le> k" "k < length ts"
  shows "ts = take (k - 1) ts @ [ts ! (k - 1), ts ! k] @ drop (k + 1) ts"
proof -
  from assms have a: "ts = take k ts @ ts ! k # drop (Suc k) ts"
    by (simp add: id_take_nth_drop)
  from assms have "take (Suc (k - 1)) ts = take (k - 1) ts @ [ts ! (k - 1)]"
    by (intro take_Suc_conv_app_nth) arith
  with assms have b: "take k ts = take (k - 1) ts @ [ts ! (k - 1)]" by simp
  from a b show ?thesis by (metis Suc_eq_plus1 append.assoc append_Cons append_Nil)
qed


lemma findIndicators_first:
  assumes "findIndicators isIndicator (Seq ts) = i # rest"
  shows "0 \<le> i \<and> nat i < length ts \<and> isIndicator (ts ! nat i) \<and> (\<forall>j<nat i. \<not> isIndicator (ts ! j))"
proof -
  from assms obtain k r where f: "filter (\<lambda>i. isIndicator (ts ! i)) [0..<length ts] = k # r"
    and i: "i = int k"
    by (auto simp: findIndicators_def toArray_def map_eq_Cons_conv)
  from first_filter_upt [OF f] i show ?thesis by simp
qed

subsection \<open>The empty document\<close>

lemma caret_out_of_range_throws:
  "caretSymbolIndicatorPosition findInd \<lparr>payloads = [example_symbol], caretPosition = - 1\<rparr> = Inl TypeError"
  by (simp add: caretSymbolIndicatorPosition_def js_index_def)

lemma cellClicked_empty_throws:
  "payloads (changeEncodingContents w) = [] \<Longrightarrow>
   ActionRemoveIndicatorCell_cellClicked findInd pid w = Inl TypeError"
  by (auto simp add: ActionRemoveIndicatorCell_cellClicked_def caretSymbolIndicatorPosition_def
      js_index_def Let_def)

text \<open>
  Claim C9. On a document with no payload, \<open>caretSymbolIndicatorPosition\<close> returns -1
  whatever the caret is and whatever \<open>findIndicators\<close> does: no payload is read (a read
  of \<open>payloads[caretPosition]\<close> would throw, as \<open>caret_out_of_range_throws\<close> shows for a
  non-empty document). The button is then disabled, and pressing it changes nothing; the
  handler itself, were it run on the empty document, would throw before writing anything
  (\<open>cellClicked_empty_throws\<close>).
\<close>

theorem C9_empty_document_disabled:
  assumes "payloads (changeEncodingContents w) = []"
  shows "caretSymbolIndicatorPosition findInd (changeEncodingContents w) = Inr (- 1)
       \<and> ActionRemoveIndicatorCell_disabled findInd w = Inr True
       \<and> ActionRemoveIndicatorCell_press findInd pid w = Inr w"
  using assms
  by (simp add: caretSymbolIndicatorPosition_def ActionRemoveIndicatorCell_disabled_def
      ActionRemoveIndicatorCell_press_def)

theorem C9_empty_document_disabled_witness:
  "payloads (changeEncodingContents empty_state) = []
   \<and> caretPosition (changeEncodingContents empty_state) = - 1
   \<and> caretSymbolIndicatorPosition (findIndicators example_indicator)
        (changeEncodingContents empty_state) = Inr (- 1)
   \<and> ActionRemoveIndicatorCell_disabled (findIndicators example_indicator) empty_state = Inr True
   \<and> ActionRemoveIndicatorCell_press (findIndicators example_indicator) ''remove'' empty_state
        = Inr empty_state"
proof -
  have h: "payloads (changeEncodingContents empty_state) = []"
    by (simp add: empty_state_def)
  from C9_empty_document_disabled [OF h, of "findIndicators example_indicator" "''remove''"]
  show ?thesis using h by (simp add: empty_state_def)
qed

subsection \<open>Removing the first indicator\<close>

lemma example_position:
  "caretSymbolIndicatorPosition (findIndicators example_indicator)
     (changeEncodingContents example_state) = Inr 2"
  by (simp add: caretSymbolIndicatorPosition_def js_index_def example_state_def example_symbol_def
      findIndicators_def toArray_def example_indicator_def upt_rec)

text \<open>
  An indicator at index 0 has no element before it: \<open>slice(0, -1)\<close> then keeps all but
  the last token, and nothing is removed.
\<close>

lemma indicator_at_index_0:
  "ActionRemoveIndicatorCell_cellClicked (findIndicators example_indicator) ''remove''
     \<lparr>changeEncodingContents =
        \<lparr>payloads = [\<lparr>id' = ''i'', label = ''I'',
                       bciAvId = Seq [TNum 8993, TStr ''/'', TNum 8499], modifierInfo = 0\<rparr>],
         caretPosition = 0\<rparr>,
      arrays = (\<lambda>a. []), spoken = []\<rparr>
   = Inr \<lparr>changeEncodingContents =
        \<lparr>payloads = [\<lparr>id' = ''iremove'', label = ''I'',
                       bciAvId = Seq [TNum 8993, TStr ''/'', TStr ''/'', TNum 8499], modifierInfo = 0\<rparr>],
         caretPosition = 0\<rparr>,
      arrays = (\<lambda>a. []), spoken = [''I'']\<rparr>"
  by (simp add: ActionRemoveIndicatorCell_cellClicked_def caretSymbolIndicatorPosition_def
      js_index_def findIndicators_def toArray_def example_indicator_def upt_rec
      js_slice_def js_slice_from_def js_relative_def Let_def)

lemma findIndicators_position:
  assumes "js_index (payloads doc) (caretPosition doc) = Some s" and "bciAvId s = Seq ts"
    and "caretSymbolIndicatorPosition (findIndicators isIndicator) doc = Inr i" and "0 \<le> i"
  shows "nat i < length ts \<and> isIndicator (ts ! nat i) \<and> (\<forall>j<nat i. \<not> isIndicator (ts ! j))"
proof -
  from assms(1) have "length (payloads doc) \<noteq> 0"
    by (auto simp: js_index_def split: if_splits)
  with assms obtain rest where "findIndicators isIndicator (Seq ts) = i # rest"
    by (auto simp: caretSymbolIndicatorPosition_def split: list.splits)
  from findIndicators_first [OF this] show ?thesis by simp
qed

lemma filter_upt_first:
  assumes "k < n" "P k" "\<forall>j<k. \<not> P j"
  shows "filter P [0..<n] = k # filter P [Suc k..<n]"
proof -
  from assms(1) have "[0..<n] = [0..<k] @ k # [Suc k..<n]"
    by (metis le_add1 less_imp_le_nat plus_nat.add_0 upt_add_eq_append upt_conv_Cons le_add_diff_inverse)
  moreover from assms(3) have "filter P [0..<k] = []" by (simp add: filter_empty_conv)
  ultimately show ?thesis using assms(2) by simp
qed

lemma findIndicators_leftmost:
  assumes "k < length ts" "isIndicator (ts ! k)" "\<forall>j<k. \<not> isIndicator (ts ! j)"
  shows "\<exists>rest. findIndicators isIndicator (Seq ts) = int k # rest"
  using filter_upt_first [of k "length ts" "\<lambda>i. isIndicator (ts ! i)"] assms
  by (simp add: findIndicators_def toArray_def)

text \<open>
  Claim C1. Let the symbol at the caret have the tokens \<open>ts\<close>, and let \<open>k \<ge> 1\<close> be the
  leftmost index of \<open>ts\<close> that holds an indicator. Then \<open>k\<close> is the position
  \<open>caretSymbolIndicatorPosition\<close> finds, and the click puts at the caret the symbol with
  the tokens \<open>ts[0 .. k-2] @ ts[k+1 ..]\<close>, the same label and the same modifier array,
  changing nothing else of the document. The tokens split as the kept prefix, the element
  before the indicator, the indicator, and the kept rest, so exactly these two elements
  are dropped; an indicator further right stays.
\<close>

theorem C1_remove_indicator_tokens:
  assumes sym: "js_index (payloads (changeEncodingContents w)) (caretPosition (changeEncodingContents w)) = Some s"
    and toks: "bciAvId s = Seq ts"
    and index: "k < length ts"
    and indicator: "isIndicator (ts ! k)"
    and leftmost: "\<forall>j<k. \<not> isIndicator (ts ! j)"
    and k1: "1 \<le> k"
  shows "caretSymbolIndicatorPosition (findIndicators isIndicator) (changeEncodingContents w) = Inr (int k)
       \<and> ActionRemoveIndicatorCell_cellClicked (findIndicators isIndicator) pid w =
           Inr (w\<lparr>changeEncodingContents :=
                     \<lparr>payloads = (payloads (changeEncodingContents w))
                        [nat (caretPosition (changeEncodingContents w)) :=
                           \<lparr>id' = id' s @ pid, label = label s,
                            bciAvId = Seq (take (k - 1) ts @ drop (k + 1) ts),
                            modifierInfo = modifierInfo s\<rparr>],
                      caretPosition = caretPosition (changeEncodingContents w)\<rparr>,
                   spoken := spoken w @ [label s]\<rparr>)
       \<and> ts = take (k - 1) ts @ [ts ! (k - 1), ts ! k] @ drop (k + 1) ts"
proof -
  let ?doc = "changeEncodingContents w"
  from sym have nonempty: "length (payloads ?doc) \<noteq> 0"
    by (auto simp: js_index_def split: if_splits)
  from findIndicators_leftmost [OF index indicator leftmost]
  obtain rest where found: "findIndicators isIndicator (Seq ts) = int k # rest" by blast
  with sym toks nonempty
  have pos: "caretSymbolIndicatorPosition (findIndicators isIndicator) ?doc = Inr (int k)"
    by (simp add: caretSymbolIndicatorPosition_def)
  have parts: "ts = take (k - 1) ts @ [ts ! (k - 1), ts ! k] @ drop (k + 1) ts"
    by (rule split_two [OF k1 index])
  from k1 have s1: "js_slice ts 0 (int k - 1) = take (k - 1) ts"
    by (simp add: js_slice_prefix nat_diff_distrib)
  from k1 have s2: "js_slice_from ts (int k + 1) = drop (k + 1) ts"
    by (simp add: js_slice_from_drop nat_add_distrib)
  have click: "ActionRemoveIndicatorCell_cellClicked (findIndicators isIndicator) pid w =
           Inr (w\<lparr>changeEncodingContents :=
                     \<lparr>payloads = (payloads ?doc)[nat (caretPosition ?doc) :=
                           \<lparr>id' = id' s @ pid, label = label s,
                            bciAvId = Seq (take (k - 1) ts @ drop (k + 1) ts),
                            modifierInfo = modifierInfo s\<rparr>],
                      caretPosition = caretPosition ?doc\<rparr>,
                   spoken := spoken w @ [label s]\<rparr>)"
    using pos sym toks s1 s2 by (simp add: ActionRemoveIndicatorCell_cellClicked_def Let_def)
  from pos click parts show ?thesis by blast
qed

theorem C1_remove_indicator_tokens_witness:
  "example_indicators (TNum 8993) \<and> example_indicators (TNum 8998)
   \<and> \<not> example_indicators (TNum 12335) \<and> \<not> example_indicators (TStr '';'')
   \<and> caretSymbolIndicatorPosition (findIndicators example_indicators) (changeEncodingContents two_indicators)
       = Inr 2
   \<and> ActionRemoveIndicatorCell_cellClicked (findIndicators example_indicators) ''remove'' two_indicators
       = Inr \<lparr>changeEncodingContents =
            \<lparr>payloads = [\<lparr>id' = ''verbremove'', label = ''VERB'',
                       bciAvId = Seq [TNum 12335, TStr ''/'', TNum 8499, TStr '';'', TNum 8998],
                       modifierInfo = 0\<rparr>],
             caretPosition = 0\<rparr>,
          arrays = (\<lambda>a. []), spoken = [''VERB'']\<rparr>"
proof -
  let ?s = "\<lparr>id' = ''verb'', label = ''VERB'',
             bciAvId = Seq [TNum 12335, TStr '';'', TNum 8993, TStr ''/'', TNum 8499,
                            TStr '';'', TNum 8998],
             modifierInfo = 0\<rparr>"
  let ?ts = "[TNum 12335, TStr '';'', TNum 8993, TStr ''/'', TNum 8499, TStr '';'', TNum 8998]"
  have sym: "js_index (payloads (changeEncodingContents two_indicators))
      (caretPosition (changeEncodingContents two_indicators)) = Some ?s"
    by (simp add: js_index_def two_indicators_def)
  have toks: "bciAvId ?s = Seq ?ts" by simp
  have index: "(2::nat) < length ?ts" by simp
  have indicator: "example_indicators (?ts ! 2)" by (simp add: example_indicators_def)
  have leftmost: "\<forall>j<2::nat. \<not> example_indicators (?ts ! j)"
    by (simp add: example_indicators_def less_Suc_eq numeral_2_eq_2)
  have k1: "(1::nat) \<le> 2" by simp
  have which: "example_indicators (TNum 8993) \<and> example_indicators (TNum 8998)
      \<and> \<not> example_indicators (TNum 12335) \<and> \<not> example_indicators (TStr '';'')"
    by (simp add: example_indicators_def)
  from C1_remove_indicator_tokens [OF sym toks index indicator leftmost k1, of "''remove''"]
  show ?thesis using which by (simp add: two_indicators_def)
qed

subsection \<open>Appending a modifier\<close>

text \<open>
  Claim C2. With a symbol \<open>s\<close> at the caret, the click on a post-modifier cell puts at the
  caret a symbol whose tokens are those of \<open>s\<close>, the marker \<open>"/"\<close> and the modifier's
  tokens, whose label is the modifier's gloss, a space and the label of \<open>s\<close>, and whose
  modifier array is that of \<open>s\<close> with one more record at its end, carrying the modifier's
  tokens, its gloss and \<open>isPrepended = false\<close>.
\<close>

theorem C2_append_modifier:
  assumes sym: "js_index (payloads (changeEncodingContents w)) (caretPosition (changeEncodingContents w)) = Some s"
  shows "\<exists>w' s'. ActionPostModifierCell_cellClicked props w = Inr w'
       \<and> js_index (payloads (changeEncodingContents w')) (caretPosition (changeEncodingContents w)) = Some s'
       \<and> bciAvId s' = Seq (toArray (bciAvId s) @ [TStr ''/''] @ toArray (options_bciAvId props))
       \<and> label s' = options_label props @ '' '' @ label s
       \<and> arrays w' (modifierInfo s') = arrays w (modifierInfo s) @
            [\<lparr>modifierId = toArray (options_bciAvId props), modifierGloss = options_label props,
              isPrepended = False\<rparr>]
       \<and> length (arrays w' (modifierInfo s')) = length (arrays w (modifierInfo s)) + 1"
proof -
  let ?doc = "changeEncodingContents w"
  from sym have range: "0 \<le> caretPosition ?doc" "caretPosition ?doc < int (length (payloads ?doc))"
    by (auto simp: js_index_def split: if_splits)
  let ?s' = "\<lparr>id' = id' s @ props_id props, label = options_label props @ '' '' @ label s,
              bciAvId = Seq (toArray (bciAvId s) @ [TStr ''/''] @ toArray (options_bciAvId props)),
              modifierInfo = modifierInfo s\<rparr>"
  let ?w' = "w\<lparr>changeEncodingContents :=
                \<lparr>payloads = (payloads ?doc)[nat (caretPosition ?doc) := ?s'],
                 caretPosition = caretPosition ?doc\<rparr>,
              arrays := (arrays w)(modifierInfo s := arrays w (modifierInfo s) @
                  [\<lparr>modifierId = toArray (options_bciAvId props), modifierGloss = options_label props,
                    isPrepended = False\<rparr>]),
              spoken := spoken w @ [options_label props @ '' '' @ label s]\<rparr>"
  have click: "ActionPostModifierCell_cellClicked props w = Inr ?w'"
    using sym by (simp add: ActionPostModifierCell_cellClicked_def Let_def)
  from range have slot: "js_index (payloads (changeEncodingContents ?w')) (caretPosition ?doc) = Some ?s'"
    by (simp add: js_index_def)
  show ?thesis
    apply (rule exI [of _ ?w'], rule exI [of _ ?s'])
    using click slot by simp
qed

theorem C2_append_modifier_witness:
  "js_index (payloads (changeEncodingContents example_state))
      (caretPosition (changeEncodingContents example_state)) = Some example_symbol
   \<and> (\<exists>w' s'. ActionPostModifierCell_cellClicked example_modifier example_state = Inr w'
          \<and> js_index (payloads (changeEncodingContents w')) 0 = Some s'
          \<and> bciAvId s' = Seq [TNum 12335, TStr '';'', TNum 8993, TStr ''/'', TNum 8499,
                               TStr ''/'', TNum 9011]
          \<and> label s' = ''PLURAL VERB''
          \<and> arrays w' (modifierInfo s') =
               [\<lparr>modifierId = [TNum 9011], modifierGloss = ''PLURAL'', isPrepended = False\<rparr>])"
proof -
  have sym: "js_index (payloads (changeEncodingContents example_state))
      (caretPosition (changeEncodingContents example_state)) = Some example_symbol"
    by (simp add: js_index_def example_state_def)
  from C2_append_modifier [OF sym, of example_modifier]
  show ?thesis using sym
    by (auto simp add: example_state_def example_symbol_def example_modifier_def toArray_def)
qed

subsection \<open>What an edit leaves alone\<close>

lemma edit_shape:
  assumes edit: "ActionPostModifierCell_cellClicked props w = Inr w'
               \<or> ActionRemoveIndicatorCell_cellClicked findInd pid w = Inr w'"
    and p: "payloads (changeEncodingContents w) = p"
    and c: "caretPosition (changeEncodingContents w) = c"
  shows "\<exists>s newSymbol. js_index p c = Some s
       \<and> changeEncodingContents w' = \<lparr>payloads = p[nat c := newSymbol], caretPosition = c\<rparr>
       \<and> modifierInfo newSymbol = modifierInfo s
       \<and> (\<forall>a. a \<noteq> modifierInfo s \<longrightarrow> arrays w' a = arrays w a)"
  using edit
proof
  assume post: "ActionPostModifierCell_cellClicked props w = Inr w'"
  then obtain s where sym: "js_index p c = Some s"
    using p c by (auto simp: ActionPostModifierCell_cellClicked_def Let_def split: option.splits)
  with post p c show ?thesis
    by (auto simp: ActionPostModifierCell_cellClicked_def Let_def)
next
  assume rem: "ActionRemoveIndicatorCell_cellClicked findInd pid w = Inr w'"
  then obtain s where sym: "js_index p c = Some s"
    using p c by (auto simp: ActionRemoveIndicatorCell_cellClicked_def Let_def
        split: option.splits sum.splits)
  with rem p c show ?thesis
    by (auto simp: ActionRemoveIndicatorCell_cellClicked_def Let_def
        split: sum.splits BciAvIdType.splits)
qed

text \<open>
  In a document whose payloads own their arrays (no two share one), an edit leaves the
  value of every other payload as it was, and the payloads still own their arrays; the
  cleared document is such a document.
\<close>

lemma edit_keeps_ownership:
  assumes edit: "ActionPostModifierCell_cellClicked props w = Inr w'
               \<or> ActionRemoveIndicatorCell_cellClicked findInd pid w = Inr w'"
    and own: "owns_arrays (changeEncodingContents w)"
  shows "owns_arrays (changeEncodingContents w')
       \<and> (\<forall>j<length (payloads (changeEncodingContents w)).
             j \<noteq> nat (caretPosition (changeEncodingContents w)) \<longrightarrow>
             payload_value (arrays w') (payloads (changeEncodingContents w') ! j)
               = payload_value (arrays w) (payloads (changeEncodingContents w) ! j))"
proof -
  let ?p = "payloads (changeEncodingContents w)" and ?c = "caretPosition (changeEncodingContents w)"
  from edit_shape [OF edit refl refl] obtain s newSymbol where sym: "js_index ?p ?c = Some s"
    and w': "changeEncodingContents w' = \<lparr>payloads = ?p[nat ?c := newSymbol], caretPosition = ?c\<rparr>"
    and same: "modifierInfo newSymbol = modifierInfo s"
    and h': "\<forall>a. a \<noteq> modifierInfo s \<longrightarrow> arrays w' a = arrays w a"
    by blast
  from sym have range: "nat ?c < length ?p" and s: "s = ?p ! nat ?c"
    by (auto simp: js_index_def split: if_splits)
  have "map modifierInfo (?p[nat ?c := newSymbol]) = map modifierInfo ?p"
    using range same s by (simp add: map_update list_update_same_conv)
  with own w' have own': "owns_arrays (changeEncodingContents w')"
    by (simp add: owns_arrays_def)
  have "payload_value (arrays w') (payloads (changeEncodingContents w') ! j)
               = payload_value (arrays w) (?p ! j)"
    if j: "j < length ?p" "j \<noteq> nat ?c" for j
  proof -
    from own j range s have "modifierInfo (?p ! j) \<noteq> modifierInfo s"
      by (auto simp: owns_arrays_def distinct_conv_nth)
    with h' w' j show ?thesis by (simp add: payload_value_def)
  qed
  with own' show ?thesis by blast
qed

lemma clear_owns_arrays:
  "owns_arrays (changeEncodingContents (CommandClearEncoding_cellClicked lbl w))"
  by (simp add: owns_arrays_def CommandClearEncoding_cellClicked_def)

text \<open>
  Claim C6, as amended. When appending a modifier or removing an indicator completes on a
  document with payloads \<open>p\<close> and caret \<open>c\<close>, the caret is an index of \<open>p\<close>, the new
  document has the same caret, slot \<open>c\<close> holds the replacement symbol (the one each
  handler builds from the symbol \<open>s\<close> that was there), and every other slot holds the
  payload it held. After a removal the value of every other payload is unchanged. After
  an append the value of another payload is unchanged unless the payload shares its
  \<open>modifierInfo\<close> array with the caret symbol: the append pushes onto that array in place.
\<close>

theorem C6_edit_frame:
  assumes p: "payloads (changeEncodingContents w) = p"
    and c: "caretPosition (changeEncodingContents w) = c"
  shows "(ActionPostModifierCell_cellClicked props w = Inr w' \<longrightarrow>
           (\<exists>s. js_index p c = Some s \<and> 0 \<le> c \<and> c < int (length p)
              \<and> changeEncodingContents w' =
                  \<lparr>payloads = p[nat c :=
                      \<lparr>id' = id' s @ props_id props,
                       label = options_label props @ '' '' @ label s,
                       bciAvId = Seq (toArray (bciAvId s) @ [TStr ''/'']
                                        @ toArray (options_bciAvId props)),
                       modifierInfo = modifierInfo s\<rparr>],
                   caretPosition = c\<rparr>
              \<and> js_index (payloads (changeEncodingContents w')) c =
                  Some \<lparr>id' = id' s @ props_id props,
                        label = options_label props @ '' '' @ label s,
                        bciAvId = Seq (toArray (bciAvId s) @ [TStr ''/'']
                                         @ toArray (options_bciAvId props)),
                        modifierInfo = modifierInfo s\<rparr>
              \<and> (\<forall>j<length p. j \<noteq> nat c \<longrightarrow>
                    payloads (changeEncodingContents w') ! j = p ! j
                  \<and> (modifierInfo (p ! j) \<noteq> modifierInfo s \<longrightarrow>
                       payload_value (arrays w') (payloads (changeEncodingContents w') ! j)
                         = payload_value (arrays w) (p ! j)))))
       \<and> (ActionRemoveIndicatorCell_cellClicked findInd pid w = Inr w' \<longrightarrow>
           (\<exists>s ts i. js_index p c = Some s \<and> 0 \<le> c \<and> c < int (length p)
              \<and> bciAvId s = Seq ts
              \<and> caretSymbolIndicatorPosition findInd (changeEncodingContents w) = Inr i
              \<and> changeEncodingContents w' =
                  \<lparr>payloads = p[nat c :=
                      \<lparr>id' = id' s @ pid, label = label s,
                       bciAvId = Seq (js_slice ts 0 (i - 1) @ js_slice_from ts (i + 1)),
                       modifierInfo = modifierInfo s\<rparr>],
                   caretPosition = c\<rparr>
              \<and> js_index (payloads (changeEncodingContents w')) c =
                  Some \<lparr>id' = id' s @ pid, label = label s,
                        bciAvId = Seq (js_slice ts 0 (i - 1) @ js_slice_from ts (i + 1)),
                        modifierInfo = modifierInfo s\<rparr>
              \<and> (\<forall>j<length p. j \<noteq> nat c \<longrightarrow>
                    payloads (changeEncodingContents w') ! j = p ! j
                  \<and> payload_value (arrays w') (payloads (changeEncodingContents w') ! j)
                      = payload_value (arrays w) (p ! j))))"
proof (intro conjI impI)
  assume post: "ActionPostModifierCell_cellClicked props w = Inr w'"
  then obtain s where sym: "js_index p c = Some s"
    using p c by (auto simp: ActionPostModifierCell_cellClicked_def Let_def split: option.splits)
  then have range: "0 \<le> c" "c < int (length p)"
    by (auto simp: js_index_def split: if_splits)
  let ?new = "\<lparr>id' = id' s @ props_id props,
                       label = options_label props @ '' '' @ label s,
                       bciAvId = Seq (toArray (bciAvId s) @ [TStr ''/'']
                                        @ toArray (options_bciAvId props)),
                       modifierInfo = modifierInfo s\<rparr>"
  from post sym p c have doc: "changeEncodingContents w' = \<lparr>payloads = p[nat c := ?new], caretPosition = c\<rparr>"
    and store: "\<forall>a. a \<noteq> modifierInfo s \<longrightarrow> arrays w' a = arrays w a"
    by (auto simp: ActionPostModifierCell_cellClicked_def Let_def)
  from range doc have slot: "js_index (payloads (changeEncodingContents w')) c = Some ?new"
    by (simp add: js_index_def)
  from doc store have others: "\<forall>j<length p. j \<noteq> nat c \<longrightarrow>
                    payloads (changeEncodingContents w') ! j = p ! j
                  \<and> (modifierInfo (p ! j) \<noteq> modifierInfo s \<longrightarrow>
                       payload_value (arrays w') (payloads (changeEncodingContents w') ! j)
                         = payload_value (arrays w) (p ! j))"
    by (simp add: payload_value_def)
  from sym range doc slot others
  show "\<exists>s. js_index p c = Some s \<and> 0 \<le> c \<and> c < int (length p)
              \<and> changeEncodingContents w' =
                  \<lparr>payloads = p[nat c :=
                      \<lparr>id' = id' s @ props_id props,
                       label = options_label props @ '' '' @ label s,
                       bciAvId = Seq (toArray (bciAvId s) @ [TStr ''/'']
                                        @ toArray (options_bciAvId props)),
                       modifierInfo = modifierInfo s\<rparr>],
                   caretPosition = c\<rparr>
              \<and> js_index (payloads (changeEncodingContents w')) c =
                  Some \<lparr>id' = id' s @ props_id props,
                        label = options_label props @ '' '' @ label s,
                        bciAvId = Seq (toArray (bciAvId s) @ [TStr ''/'']
                                         @ toArray (options_bciAvId props)),
                        modifierInfo = modifierInfo s\<rparr>
              \<and> (\<forall>j<length p. j \<noteq> nat c \<longrightarrow>
                    payloads (changeEncodingContents w') ! j = p ! j
                  \<and> (modifierInfo (p ! j) \<noteq> modifierInfo s \<longrightarrow>
                       payload_value (arrays w') (payloads (changeEncodingContents w') ! j)
                         = payload_value (arrays w) (p ! j)))"
    by blast
next
  assume rem: "ActionRemoveIndicatorCell_cellClicked findInd pid w = Inr w'"
  then obtain s where sym: "js_index p c = Some s"
    using p c by (auto simp: ActionRemoveIndicatorCell_cellClicked_def Let_def
        split: option.splits sum.splits)
  then have range: "0 \<le> c" "c < int (length p)"
    by (auto simp: js_index_def split: if_splits)
  from rem sym p c obtain ts i where toks: "bciAvId s = Seq ts"
    and pos: "caretSymbolIndicatorPosition findInd (changeEncodingContents w) = Inr i"
    and doc: "changeEncodingContents w' =
        \<lparr>payloads = p[nat c := \<lparr>id' = id' s @ pid, label = label s,
                       bciAvId = Seq (js_slice ts 0 (i - 1) @ js_slice_from ts (i + 1)),
                       modifierInfo = modifierInfo s\<rparr>],
         caretPosition = c\<rparr>"
    and store: "arrays w' = arrays w"
    by (auto simp: ActionRemoveIndicatorCell_cellClicked_def Let_def
        split: sum.splits BciAvIdType.splits)
  from range doc have slot: "js_index (payloads (changeEncodingContents w')) c =
       Some \<lparr>id' = id' s @ pid, label = label s,
                       bciAvId = Seq (js_slice ts 0 (i - 1) @ js_slice_from ts (i + 1)),
                       modifierInfo = modifierInfo s\<rparr>"
    by (simp add: js_index_def)
  from doc store have others: "\<forall>j<length p. j \<noteq> nat c \<longrightarrow>
                    payloads (changeEncodingContents w') ! j = p ! j
                  \<and> payload_value (arrays w') (payloads (changeEncodingContents w') ! j)
                      = payload_value (arrays w) (p ! j)"
    by (simp add: payload_value_def)
  from sym range toks pos doc slot others
  show "\<exists>s ts i. js_index p c = Some s \<and> 0 \<le> c \<and> c < int (length p)
              \<and> bciAvId s = Seq ts
              \<and> caretSymbolIndicatorPosition findInd (changeEncodingContents w) = Inr i
              \<and> changeEncodingContents w' =
                  \<lparr>payloads = p[nat c :=
                      \<lparr>id' = id' s @ pid, label = label s,
                       bciAvId = Seq (js_slice ts 0 (i - 1) @ js_slice_from ts (i + 1)),
                       modifierInfo = modifierInfo s\<rparr>],
                   caretPosition = c\<rparr>
              \<and> js_index (payloads (changeEncodingContents w')) c =
                  Some \<lparr>id' = id' s @ pid, label = label s,
                        bciAvId = Seq (js_slice ts 0 (i - 1) @ js_slice_from ts (i + 1)),
                        modifierInfo = modifierInfo s\<rparr>
              \<and> (\<forall>j<length p. j \<noteq> nat c \<longrightarrow>
                    payloads (changeEncodingContents w') ! j = p ! j
                  \<and> payload_value (arrays w') (payloads (changeEncodingContents w') ! j)
                      = payload_value (arrays w) (p ! j))"
    by blast
qed

theorem C6_edit_frame_witness:
  "(\<exists>w'. ActionPostModifierCell_cellClicked example_modifier two_symbols = Inr w'
        \<and> caretPosition (changeEncodingContents w') = 1
        \<and> js_index (payloads (changeEncodingContents w')) 1
            = Some \<lparr>id' = ''catplural'', label = ''PLURAL CAT'',
                    bciAvId = Seq [TNum 5, TStr ''/'', TNum 9011], modifierInfo = 1\<rparr>
        \<and> payloads (changeEncodingContents w') ! 0 = example_symbol
        \<and> payload_value (arrays w') (payloads (changeEncodingContents w') ! 0)
            = payload_value (arrays two_symbols) example_symbol)
   \<and> (\<exists>w'. ActionRemoveIndicatorCell_cellClicked (findIndicators example_indicator) ''remove''
               two_symbols_first = Inr w'
        \<and> caretPosition (changeEncodingContents w') = 0
        \<and> js_index (payloads (changeEncodingContents w')) 0
            = Some \<lparr>id' = ''verbremove'', label = ''VERB'',
                    bciAvId = Seq [TNum 12335, TStr ''/'', TNum 8499], modifierInfo = 0\<rparr>
        \<and> payloads (changeEncodingContents w') ! 1
            = \<lparr>id' = ''cat'', label = ''CAT'', bciAvId = Single 5, modifierInfo = 1\<rparr>
        \<and> payload_value (arrays w') (payloads (changeEncodingContents w') ! 1)
            = payload_value (arrays two_symbols_first)
                \<lparr>id' = ''cat'', label = ''CAT'', bciAvId = Single 5, modifierInfo = 1\<rparr>)"
proof -
  let ?cat = "\<lparr>id' = ''cat'', label = ''CAT'', bciAvId = Single 5, modifierInfo = 1\<rparr>"
  obtain a where post: "ActionPostModifierCell_cellClicked example_modifier two_symbols = Inr a"
    by (simp add: ActionPostModifierCell_cellClicked_def two_symbols_def js_index_def Let_def)
  have p1: "payloads (changeEncodingContents two_symbols) = [example_symbol, ?cat]"
    and c1: "caretPosition (changeEncodingContents two_symbols) = 1"
    by (simp_all add: two_symbols_def)
  from C6_edit_frame [OF p1 c1, THEN conjunct1, rule_format, OF post]
  obtain s where s: "js_index [example_symbol, ?cat] 1 = Some s"
    and doc: "changeEncodingContents a =
        \<lparr>payloads = [example_symbol, ?cat][nat 1 :=
            \<lparr>id' = id' s @ props_id example_modifier,
             label = options_label example_modifier @ '' '' @ label s,
             bciAvId = Seq (toArray (bciAvId s) @ [TStr ''/'']
                              @ toArray (options_bciAvId example_modifier)),
             modifierInfo = modifierInfo s\<rparr>],
         caretPosition = 1\<rparr>"
    and others: "\<forall>j<length [example_symbol, ?cat]. j \<noteq> nat 1 \<longrightarrow>
          payloads (changeEncodingContents a) ! j = [example_symbol, ?cat] ! j
        \<and> (modifierInfo ([example_symbol, ?cat] ! j) \<noteq> modifierInfo s \<longrightarrow>
             payload_value (arrays a) (payloads (changeEncodingContents a) ! j)
               = payload_value (arrays two_symbols) ([example_symbol, ?cat] ! j))"
    by blast
  from s have s_cat: "s = ?cat" by (simp add: js_index_def)
  have differ: "modifierInfo example_symbol \<noteq> modifierInfo ?cat"
    by (simp add: example_symbol_def)
  from others [rule_format, of 0] s_cat differ
  have zero: "payloads (changeEncodingContents a) ! 0 = example_symbol
        \<and> payload_value (arrays a) (payloads (changeEncodingContents a) ! 0)
            = payload_value (arrays two_symbols) example_symbol"
    by auto
  from doc s_cat zero
  have first: "caretPosition (changeEncodingContents a) = 1
        \<and> js_index (payloads (changeEncodingContents a)) 1
            = Some \<lparr>id' = ''catplural'', label = ''PLURAL CAT'',
                    bciAvId = Seq [TNum 5, TStr ''/'', TNum 9011], modifierInfo = 1\<rparr>
        \<and> payloads (changeEncodingContents a) ! 0 = example_symbol
        \<and> payload_value (arrays a) (payloads (changeEncodingContents a) ! 0)
            = payload_value (arrays two_symbols) example_symbol"
    by (simp add: js_index_def example_modifier_def toArray_def)
  obtain b where rem: "ActionRemoveIndicatorCell_cellClicked (findIndicators example_indicator)
      ''remove'' two_symbols_first = Inr b"
    by (simp add: ActionRemoveIndicatorCell_cellClicked_def caretSymbolIndicatorPosition_def
        two_symbols_first_def example_symbol_def js_index_def findIndicators_def toArray_def
        example_indicator_def upt_rec Let_def)
  have p2: "payloads (changeEncodingContents two_symbols_first) = [example_symbol, ?cat]"
    and c2: "caretPosition (changeEncodingContents two_symbols_first) = 0"
    by (simp_all add: two_symbols_first_def)
  have pos: "caretSymbolIndicatorPosition (findIndicators example_indicator)
      (changeEncodingContents two_symbols_first) = Inr 2"
    by (simp add: caretSymbolIndicatorPosition_def js_index_def two_symbols_first_def
        example_symbol_def findIndicators_def toArray_def example_indicator_def upt_rec)
  from C6_edit_frame [OF p2 c2, THEN conjunct2, rule_format, OF rem]
  obtain s2 ts i where s2: "js_index [example_symbol, ?cat] 0 = Some s2"
    and toks: "bciAvId s2 = Seq ts"
    and i: "caretSymbolIndicatorPosition (findIndicators example_indicator)
              (changeEncodingContents two_symbols_first) = Inr i"
    and doc2: "changeEncodingContents b =
        \<lparr>payloads = [example_symbol, ?cat][nat 0 :=
            \<lparr>id' = id' s2 @ ''remove'', label = label s2,
             bciAvId = Seq (js_slice ts 0 (i - 1) @ js_slice_from ts (i + 1)),
             modifierInfo = modifierInfo s2\<rparr>],
         caretPosition = 0\<rparr>"
    and others2: "\<forall>j<length [example_symbol, ?cat]. j \<noteq> nat 0 \<longrightarrow>
          payloads (changeEncodingContents b) ! j = [example_symbol, ?cat] ! j
        \<and> payload_value (arrays b) (payloads (changeEncodingContents b) ! j)
            = payload_value (arrays two_symbols_first) ([example_symbol, ?cat] ! j)"
    by blast
  from s2 have s2_verb: "s2 = example_symbol" by (simp add: js_index_def)
  with toks have ts: "ts = [TNum 12335, TStr '';'', TNum 8993, TStr ''/'', TNum 8499]"
    by (simp add: example_symbol_def)
  from i pos have i2: "i = 2" by simp
  from others2 [rule_format, of 1]
  have one: "payloads (changeEncodingContents b) ! 1 = ?cat
        \<and> payload_value (arrays b) (payloads (changeEncodingContents b) ! 1)
            = payload_value (arrays two_symbols_first) ?cat"
    by auto
  from doc2 s2_verb ts i2 one
  have second: "caretPosition (changeEncodingContents b) = 0
        \<and> js_index (payloads (changeEncodingContents b)) 0
            = Some \<lparr>id' = ''verbremove'', label = ''VERB'',
                    bciAvId = Seq [TNum 12335, TStr ''/'', TNum 8499], modifierInfo = 0\<rparr>
        \<and> payloads (changeEncodingContents b) ! 1 = ?cat
        \<and> payload_value (arrays b) (payloads (changeEncodingContents b) ! 1)
            = payload_value (arrays two_symbols_first) ?cat"
    by (simp add: js_index_def example_symbol_def js_slice_def js_slice_from_def js_relative_def)
  from post first rem second show ?thesis by blast
qed

text \<open>
  The claim as stated (every payload at another index is unchanged) fails for an append
  on a document whose two payloads hold the same array: the record pushed for the caret
  symbol at index 1 shows in the payload at index 0.
\<close>

theorem C6_shared_array_counterexample:
  "ActionPostModifierCell_cellClicked example_modifier shared_arrays
     = Inr (shared_arrays
          \<lparr>changeEncodingContents :=
             \<lparr>payloads = [\<lparr>id' = ''dog'', label = ''DOG'', bciAvId = Single 7, modifierInfo = 0\<rparr>,
                          \<lparr>id' = ''catplural'', label = ''PLURAL CAT'',
                           bciAvId = Seq [TNum 5, TStr ''/'', TNum 9011], modifierInfo = 0\<rparr>],
              caretPosition = 1\<rparr>,
           arrays := (arrays shared_arrays)
                       (0 := [\<lparr>modifierId = [TNum 9011], modifierGloss = ''PLURAL'',
                               isPrepended = False\<rparr>]),
           spoken := [''PLURAL CAT'']\<rparr>)
   \<and> caretPosition (changeEncodingContents shared_arrays) = 1
   \<and> payloads (changeEncodingContents shared_arrays) ! 0
       = \<lparr>id' = ''dog'', label = ''DOG'', bciAvId = Single 7, modifierInfo = 0\<rparr>
   \<and> payload_value (arrays shared_arrays)
        \<lparr>id' = ''dog'', label = ''DOG'', bciAvId = Single 7, modifierInfo = 0\<rparr>
       = (''dog'', ''DOG'', Single 7, [])
   \<and> payload_value
        ((arrays shared_arrays)
           (0 := [\<lparr>modifierId = [TNum 9011], modifierGloss = ''PLURAL'', isPrepended = False\<rparr>]))
        \<lparr>id' = ''dog'', label = ''DOG'', bciAvId = Single 7, modifierInfo = 0\<rparr>
       = (''dog'', ''DOG'', Single 7,
          [\<lparr>modifierId = [TNum 9011], modifierGloss = ''PLURAL'', isPrepended = False\<rparr>])"
  by (simp add: ActionPostModifierCell_cellClicked_def shared_arrays_def example_modifier_def
      js_index_def toArray_def payload_value_def Let_def)

section \<open>Properties of label resolution\<close>

subsection \<open>The word match on literal labels\<close>

lemma word_before_append: "word_before (xs @ ys) (length xs) = ends_with_word xs"
  by (cases xs rule: rev_cases) (simp_all add: word_before_def ends_with_word_def nth_append)

lemma word_at_append: "word_at (xs @ ys) (length xs) = starts_with_word ys"
  by (cases ys) (simp_all add: word_at_def starts_with_word_def nth_append)

lemma word_boundary_append:
  "word_boundary (xs @ ys) (length xs) = (ends_with_word xs \<noteq> starts_with_word ys)"
  by (simp add: word_boundary_def word_before_append word_at_append)

lemma list_all2_literal:
  "list_all2 atom_matches (map PatternCharacter l) xs = (xs = l)"
proof -
  have "list_all2 atom_matches (map PatternCharacter l) xs = list_all2 (\<lambda>x c. c = x) l xs"
    by (simp add: list_all2_map1 atom_matches_def)
  also have "\<dots> = (xs = l)"
    by (induction l arbitrary: xs) (auto simp: list_all2_Cons1)
  finally show ?thesis .
qed

lemma matches_at_literal:
  "matches_at (map PatternCharacter l) d i =
     (\<exists>post. d = take i d @ l @ post \<and> i \<le> length d
        \<and> ends_with_word (take i d) \<noteq> starts_with_word (l @ post)
        \<and> ends_with_word (take i d @ l) \<noteq> starts_with_word post)"
  (is "?L = ?R")
proof
  assume L: ?L
  then have le: "i + length l \<le> length d" and eq: "take (length l) (drop i d) = l"
    and b1: "word_boundary d i" and b2: "word_boundary d (i + length l)"
    by (simp_all add: matches_at_def list_all2_literal)
  let ?post = "drop (i + length l) d"
  have d1: "d = take i d @ drop i d" by simp
  have "take (length l) (drop i d) @ drop (length l) (drop i d) = drop i d"
    by (rule append_take_drop_id)
  with eq have d2: "drop i d = l @ ?post" by (simp add: add.commute)
  from d1 d2 have d: "d = take i d @ l @ ?post" by simp
  from le have li: "length (take i d) = i" by simp
  have w1: "word_boundary (take i d @ (l @ ?post)) (length (take i d))
            = (ends_with_word (take i d) \<noteq> starts_with_word (l @ ?post))"
    by (rule word_boundary_append)
  have w2: "word_boundary ((take i d @ l) @ ?post) (length (take i d @ l))
            = (ends_with_word (take i d @ l) \<noteq> starts_with_word ?post)"
    by (rule word_boundary_append)
  from le have li2: "length (take i d @ l) = i + length l" by simp
  from w1 d li b1 have c1: "ends_with_word (take i d) \<noteq> starts_with_word (l @ ?post)"
    by (metis)
  from w2 d li2 b2 have c2: "ends_with_word (take i d @ l) \<noteq> starts_with_word ?post"
    by (metis append.assoc)
  from d le c1 c2 show ?R by (intro exI [of _ ?post]) simp
next
  assume ?R
  then obtain post where d: "d = take i d @ l @ post" and le: "i \<le> length d"
    and c1: "ends_with_word (take i d) \<noteq> starts_with_word (l @ post)"
    and c2: "ends_with_word (take i d @ l) \<noteq> starts_with_word post"
    by blast
  from le have li: "length (take i d) = i" by simp
  have len: "length d = i + length l + length post"
    using arg_cong [OF d, of length] li by simp
  have dr: "drop i d = l @ post"
    using arg_cong [OF d, of "drop i"] li by simp
  have b1: "word_boundary d i"
    using word_boundary_append [of "take i d" "l @ post"] d li c1 by metis
  have b2: "word_boundary d (i + length l)"
    using word_boundary_append [of "take i d @ l" post] d li c2
    by (metis append.assoc length_append)
  from len dr b1 b2 show ?L
    by (simp add: matches_at_def list_all2_literal)
qed

lemma regexp_test_literal:
  "regexp_test (map PatternCharacter l) d = spec_contains_whole_word l d"
proof
  assume "regexp_test (map PatternCharacter l) d"
  then obtain i where "matches_at (map PatternCharacter l) d i"
    by (auto simp: regexp_test_def list_ex_iff)
  then show "spec_contains_whole_word l d"
    unfolding matches_at_literal spec_contains_whole_word_def by blast
next
  assume "spec_contains_whole_word l d"
  then obtain pre post where d: "d = pre @ l @ post"
    and c1: "ends_with_word pre \<noteq> starts_with_word (l @ post)"
    and c2: "ends_with_word (pre @ l) \<noteq> starts_with_word post"
    unfolding spec_contains_whole_word_def by blast
  from d have t: "take (length pre) d = pre" by simp
  have "matches_at (map PatternCharacter l) d (length pre)"
    unfolding matches_at_literal using d c1 c2 t by (intro exI [of _ post]) simp
  moreover from d have "length pre \<in> set [0 ..< Suc (length d)]" by simp
  ultimately show "regexp_test (map PatternCharacter l) d"
    unfolding regexp_test_def list_ex_iff by blast
qed

lemma map_atom_of_literal:
  "literal_label l \<Longrightarrow> map atom_of l = map PatternCharacter l"
  by (induction l) (auto simp: literal_label_def atom_of_def syntaxCharacters_def)

lemma wordMatchRegExp_literal:
  "literal_label l \<Longrightarrow> wordMatchRegExp engine l = Inr (regexp_test (map PatternCharacter l))"
  by (simp add: wordMatchRegExp_def map_atom_of_literal)
     (simp add: literal_label_def list_all_iff)

subsection \<open>The loop over the glosses\<close>

lemma forGloss_built:
  "wordMatchRegExp engine l = Inr wordMatch \<Longrightarrow>
   forGloss engine l glosses acc =
     Inr (acc @ map match_of (filter (\<lambda>g. l = description g \<or> wordMatch (description g)) glosses))"
  by (induction glosses arbitrary: acc) (simp_all add: match_of_def)

lemma forGloss_throws:
  "wordMatchRegExp engine l = Inl e \<Longrightarrow> glosses \<noteq> [] \<Longrightarrow> forGloss engine l glosses acc = Inl e"
  by (cases glosses) simp_all

lemma findBciAvId_built:
  assumes "\<not> js_in l specialEncodings" and "wordMatchRegExp engine l = Inr wordMatch"
  shows "findBciAvId engine specialEncodings l (Some glosses) =
     (let found = map match_of (filter (\<lambda>g. l = description g \<or> wordMatch (description g)) glosses)
      in if found = [] then Inl (Error (''BciAvId not found for label: '' @ l))
         else Inr (Matches found))"
  using assms by (simp add: findBciAvId_def forGloss_built Let_def)

text \<open>
  For a label made of pattern characters only, \<open>findBciAvId\<close> keeps exactly the entries
  whose description equals the label or contains it as a whole word, in the order of the
  glosses.
\<close>

lemma findBciAvId_literal_label:
  assumes "\<not> js_in l specialEncodings" and "literal_label l"
  shows "findBciAvId engine specialEncodings l (Some glosses) =
     (let found = map match_of
            (filter (\<lambda>g. description g = l \<or> spec_contains_whole_word l (description g)) glosses)
      in if found = [] then Inl (Error (''BciAvId not found for label: '' @ l))
         else Inr (Matches found))"
proof -
  have same: "(\<lambda>g. l = description g \<or> regexp_test (map PatternCharacter l) (description g))
            = (\<lambda>g. description g = l \<or> spec_contains_whole_word l (description g))"
    by (auto simp: regexp_test_literal)
  show ?thesis
    using findBciAvId_built [OF assms(1) wordMatchRegExp_literal [OF assms(2)]]
    by (simp add: same)
qed

lemma cat_not_in_category: "\<not> spec_contains_whole_word ''cat'' ''category''"
  unfolding regexp_test_literal [symmetric]
  by (simp add: regexp_test_def matches_at_def word_boundary_def word_before_def word_at_def
      isWordChar_def atom_matches_def upt_rec nth_Cons')

lemma cat_in_the_cat_sat: "spec_contains_whole_word ''cat'' ''the cat sat''"
  unfolding regexp_test_literal [symmetric]
  by (simp add: regexp_test_def matches_at_def word_boundary_def word_before_def word_at_def
      isWordChar_def atom_matches_def upt_rec nth_Cons')

lemma Mr_not_in_Mrs: "\<not> spec_contains_whole_word ''Mr.'' ''Mrs''"
  unfolding regexp_test_literal [symmetric]
  by (simp add: regexp_test_def matches_at_def word_boundary_def word_before_def word_at_def
      isWordChar_def atom_matches_def upt_rec nth_Cons')

lemma parseInt_1: "parseInt ''1'' = Num 1"
  by (simp add: parseInt_def isStrWhiteSpaceChar_def radix_digit_def digit_of_def
      digit_value_def Let_def)

lemma parseInt_2: "parseInt ''2'' = Num 2"
  by (simp add: parseInt_def isStrWhiteSpaceChar_def radix_digit_def digit_of_def
      digit_value_def Let_def)

lemma parseInt_5: "parseInt ''5'' = Num 5"
  by (simp add: parseInt_def isStrWhiteSpaceChar_def radix_digit_def digit_of_def
      digit_value_def Let_def)

lemma parseInt_7: "parseInt ''7'' = Num 7"
  by (simp add: parseInt_def isStrWhiteSpaceChar_def radix_digit_def digit_of_def
      digit_value_def Let_def)

lemma parseInt_dog: "parseInt ''dog'' = NaN"
  by (simp add: parseInt_def isStrWhiteSpaceChar_def radix_digit_def digit_of_def
      digit_value_def Let_def)

lemma cat_not_special: "\<not> js_in ''cat'' Map.empty"
  by (simp add: js_in_def Object_prototype_keys_def)

lemma cat_literal: "literal_label ''cat''"
  by (simp add: literal_label_def syntaxCharacters_def)

lemma unbalanced_label_throws:
  "findBciAvId engine Map.empty ''(a'' (Some [\<lparr>gloss_id = IdString ''1'', description = ''(a''\<rparr>])
     = Inl SyntaxError"
  by (simp add: findBciAvId_def js_in_def Object_prototype_keys_def wordMatchRegExp_def
      syntaxCharacters_def)

lemma inherited_label_is_special:
  "findBciAvId engine Map.empty ''constructor'' glosses = Inr Inherited"
  by (simp add: findBciAvId_def js_in_def js_get_def Object_prototype_keys_def)

text \<open>
  Claim C4. The label is the source of the regular expression, unescaped, so a character
  of the label with a meaning in patterns is not matched as itself. The label \<open>Mr.\<close>
  selects the entry \<open>Mrs\<close>, whose description neither equals the label nor contains it as
  a whole word: the claim fails for this label. (For labels of pattern characters only it
  holds, by \<open>findBciAvId_literal_label\<close>.)
\<close>

theorem C4_wildcard_label_matches:
  "findBciAvId engine Map.empty ''Mr.'' (Some [\<lparr>gloss_id = IdString ''1'', description = ''Mrs''\<rparr>])
     = Inr (Matches [\<lparr>match_bciAvId = Num 1, match_label = ''Mrs''\<rparr>])
   \<and> ''Mrs'' \<noteq> ''Mr.'' \<and> \<not> spec_contains_whole_word ''Mr.'' ''Mrs''"
proof -
  have one: "parseInt ''1'' = Num 1"
    by (simp add: parseInt_def isStrWhiteSpaceChar_def radix_digit_def digit_of_def
        digit_value_def Let_def)
  have built: "wordMatchRegExp engine ''Mr.'' = Inr (regexp_test (map atom_of ''Mr.''))"
    by (simp add: wordMatchRegExp_def syntaxCharacters_def)
  have hit: "regexp_test (map atom_of ''Mr.'') ''Mrs''"
    by (simp add: regexp_test_def matches_at_def word_boundary_def word_before_def word_at_def
        isWordChar_def atom_matches_def atom_of_def isLineTerminator_def upt_rec nth_Cons')
  have "\<not> js_in ''Mr.'' Map.empty"
    by (simp add: js_in_def Object_prototype_keys_def)
  then show ?thesis
    using one built hit Mr_not_in_Mrs
    by (simp add: findBciAvId_def parseInt_id_def)
qed

text \<open>
  Claim C7, as amended. A label that is the description of some entry, that is not a key
  of the special encodings, and whose regular expression can be built, resolves; among
  the matches, those whose description is the label are the entries with that
  description, one match each and in their order: at least one, and exactly one only
  when the description occurs once among the glosses.
\<close>

theorem C7_verbatim_label_matches:
  assumes special: "\<not> js_in l specialEncodings"
    and built: "wordMatchRegExp engine l = Inr wordMatch"
    and verbatim: "filter (\<lambda>g. description g = l) glosses \<noteq> []"
  shows "\<exists>found. findBciAvId engine specialEncodings l (Some glosses) = Inr (Matches found)
       \<and> filter (\<lambda>m. match_label m = l) found
           = map match_of (filter (\<lambda>g. description g = l) glosses)
       \<and> length (filter (\<lambda>m. match_label m = l) found)
           = length (filter (\<lambda>g. description g = l) glosses)
       \<and> 1 \<le> length (filter (\<lambda>m. match_label m = l) found)"
proof -
  let ?P = "\<lambda>g. l = description g \<or> wordMatch (description g)"
  let ?found = "map match_of (filter ?P glosses)"
  from verbatim obtain g where g: "g \<in> set glosses" "description g = l"
    by (auto simp: filter_empty_conv)
  then have "g \<in> set (filter ?P glosses)" by simp
  then have "filter ?P glosses \<noteq> []" by (metis empty_iff list.set(1))
  then have nonempty: "?found \<noteq> []" by simp
  have res: "findBciAvId engine specialEncodings l (Some glosses) = Inr (Matches ?found)"
    using findBciAvId_built [OF special built, of glosses] nonempty by (simp add: Let_def)
  have "filter (\<lambda>m. match_label m = l) ?found
        = map match_of (filter (\<lambda>g. description g = l) (filter ?P glosses))"
    by (simp add: filter_map o_def match_of_def)
  also have "filter (\<lambda>g. description g = l) (filter ?P glosses)
        = filter (\<lambda>g. description g = l) glosses"
    by (auto intro: filter_cong)
  finally have sel: "filter (\<lambda>m. match_label m = l) ?found
        = map match_of (filter (\<lambda>g. description g = l) glosses)" .
  from verbatim have "1 \<le> length (filter (\<lambda>g. description g = l) glosses)"
    by (cases "filter (\<lambda>g. description g = l) glosses") simp_all
  with res sel show ?thesis by simp
qed

theorem C7_verbatim_label_matches_witness:
  "\<not> js_in ''cat'' Map.empty
   \<and> wordMatchRegExp no_engine ''cat'' = Inr (regexp_test (map PatternCharacter ''cat''))
   \<and> filter (\<lambda>g. description g = ''cat'') two_cats = two_cats
   \<and> (\<exists>found. findBciAvId no_engine Map.empty ''cat'' (Some two_cats) = Inr (Matches found)
        \<and> filter (\<lambda>m. match_label m = ''cat'') found = map match_of two_cats
        \<and> length (filter (\<lambda>m. match_label m = ''cat'') found) = 2)"
proof -
  have built: "wordMatchRegExp no_engine ''cat'' = Inr (regexp_test (map PatternCharacter ''cat''))"
    by (rule wordMatchRegExp_literal [OF cat_literal])
  have all: "filter (\<lambda>g. description g = ''cat'') two_cats = two_cats"
    by (simp add: two_cats_def)
  then have verbatim: "filter (\<lambda>g. description g = ''cat'') two_cats \<noteq> []"
    by (simp add: two_cats_def)
  have two: "length two_cats = 2" by (simp add: two_cats_def)
  from C7_verbatim_label_matches [OF cat_not_special built verbatim]
  show ?thesis using cat_not_special built all two by auto
qed

text \<open>
  The claim as stated (exactly one such match) fails when two entries share the
  description: both are returned.
\<close>

theorem C7_two_entries_counterexample:
  "description (two_cats ! 0) = ''cat''
   \<and> findBciAvId no_engine Map.empty ''cat'' (Some two_cats)
     = Inr (Matches [\<lparr>match_bciAvId = Num 1, match_label = ''cat''\<rparr>,
                     \<lparr>match_bciAvId = Num 2, match_label = ''cat''\<rparr>])"
  using findBciAvId_literal_label [OF cat_not_special cat_literal, of no_engine two_cats]
  by (simp add: two_cats_def match_of_def parseInt_id_def parseInt_1 parseInt_2)

section \<open>Properties of the palette build\<close>

lemma forEach_indexed:
  "forEach f xs i s = fold (\<lambda>(j, x). f x j) (indexed xs i) s"
  by (induction xs arbitrary: i s) simp_all

lemma forEach_layout:
  "forEach (\<lambda>row rowIndex. forEach (F rowIndex) row 0) rows i s
     = fold (\<lambda>(r, c, l). F r l c) (layout_labels rows i) s"
proof (induction rows arbitrary: i s)
  case Nil
  show ?case by (simp add: layout_labels_def)
next
  case (Cons row rows)
  have row: "forEach (F i) row 0 s = fold (\<lambda>(r, c, l). F r l c) (map (\<lambda>(c, l). (i, c, l)) (indexed row 0)) s"
    by (simp add: forEach_indexed fold_map o_def case_prod_unfold)
  have "layout_labels (row # rows) i
        = map (\<lambda>(c, l). (i, c, l)) (indexed row 0) @ layout_labels rows (i + 1)"
    by (simp add: layout_labels_def)
  then show ?case by (simp add: Cons.IH row)
qed

lemma update_fresh:
  "k \<notin> fst ` set al \<Longrightarrow> AList.update k v al = al @ [(k, v)]"
  by (induction al) auto

lemma try_block_failed_cell:
  "try_block engine specialEncodings glosses l cell = Inl (e, cell') \<Longrightarrow>
   cell' = cell\<lparr>options := (options cell)\<lparr>cell_bciAvId := CellNumber (parseInt l)\<rparr>\<rparr>"
  by (auto simp: try_block_def Let_def split: if_splits sum.splits)

lemma emitted_on_failure:
  assumes "failure engine specialEncodings glosses start_row start_column (r, c, l) = Some e"
  shows "emitted engine specialEncodings glosses start_row start_column (r, c, l)
         = not_found_cell (start_row + r) (start_column + c) l"
proof -
  from assms obtain cell' where
    a: "attempt engine specialEncodings glosses start_row start_column (r, c, l) = Inl (e, cell')"
    by (auto simp: failure_def split: sum.splits)
  then have "cell' = (initial_cell (start_row + r) (start_column + c) l)
      \<lparr>options := (options (initial_cell (start_row + r) (start_column + c) l))
          \<lparr>cell_bciAvId := CellNumber (parseInt l)\<rparr>\<rparr>"
    by (simp add: attempt_def try_block_failed_cell)
  with a show ?thesis
    by (simp add: emitted_def initial_cell_def not_found_cell_def)
qed

lemma pushed_on_failure:
  "failure engine specialEncodings glosses start_row start_column pos = Some e \<Longrightarrow>
   pushed engine specialEncodings glosses start_row start_column pos = []"
  by (auto simp: failure_def pushed_def split: sum.splits)

lemma process_label_blank:
  "process_label engine specialEncodings start_row start_column r BLANK_CELL_LABEL c st = st"
  by (simp add: process_label_def case_prod_unfold)

lemma process_label_step:
  assumes "l \<noteq> BLANK_CELL_LABEL"
  shows "process_label engine specialEncodings start_row start_column r l c (loc, g) =
     (loc\<lparr>cells := AList.update (l, uuid_calls g)
                      (emitted engine specialEncodings (bliss_gloss g) start_row start_column (r, c, l))
                      (cells loc),
          matchByLabel := matchByLabel loc
             @ pushed engine specialEncodings (bliss_gloss g) start_row start_column (r, c, l)\<rparr>,
      g\<lparr>errors := errors g
             @ (case failure engine specialEncodings (bliss_gloss g) start_row start_column (r, c, l) of
                  None \<Rightarrow> [] | Some e \<Rightarrow> [e]),
        uuid_calls := uuid_calls g + 1\<rparr>)"
  using assms
  by (auto simp: process_label_def emitted_def pushed_def failure_def attempt_def initial_cell_def
      Let_def split: sum.splits)

lemma build_fold:
  assumes "\<forall>k \<in> fst ` set (cells loc). snd k < uuid_calls g"
  shows "fold (\<lambda>(r, c, l). process_label engine specialEncodings start_row start_column r l c) ps (loc, g) =
     (loc\<lparr>cells := cells loc
             @ map (\<lambda>(u, pos). ((snd (snd pos), u),
                      emitted engine specialEncodings (bliss_gloss g) start_row start_column pos))
                 (enumerate (uuid_calls g) (filter is_label ps)),
          matchByLabel := matchByLabel loc
             @ concat (map (pushed engine specialEncodings (bliss_gloss g) start_row start_column)
                         (filter is_label ps))\<rparr>,
      g\<lparr>errors := errors g
             @ List.map_filter (failure engine specialEncodings (bliss_gloss g) start_row start_column)
                 (filter is_label ps),
        uuid_calls := uuid_calls g + length (filter is_label ps)\<rparr>)"
  using assms
proof (induction ps arbitrary: loc g)
  case Nil
  show ?case by (simp add: map_filter_simps)
next
  case (Cons pos ps)
  obtain r c l where pos: "pos = (r, c, l)" by (cases pos) auto
  show ?case
  proof (cases "l = BLANK_CELL_LABEL")
    case True
    with pos have skip: "\<not> is_label pos" by (simp add: is_label_def)
    from True pos Cons.IH [OF Cons.prems] skip show ?thesis
      by (simp add: process_label_blank)
  next
    case False
    with pos have keep: "is_label pos" by (simp add: is_label_def)
    let ?cell = "emitted engine specialEncodings (bliss_gloss g) start_row start_column (r, c, l)"
    let ?loc = "loc\<lparr>cells := cells loc @ [((l, uuid_calls g), ?cell)],
          matchByLabel := matchByLabel loc
             @ pushed engine specialEncodings (bliss_gloss g) start_row start_column (r, c, l)\<rparr>"
    let ?g = "g\<lparr>errors := errors g
             @ (case failure engine specialEncodings (bliss_gloss g) start_row start_column (r, c, l) of
                  None \<Rightarrow> [] | Some e \<Rightarrow> [e]),
        uuid_calls := uuid_calls g + 1\<rparr>"
    from Cons.prems have fresh: "(l, uuid_calls g) \<notin> fst ` set (cells loc)" by force
    have step: "process_label engine specialEncodings start_row start_column r l c (loc, g) = (?loc, ?g)"
      by (simp add: process_label_step [OF False] update_fresh [OF fresh])
    from Cons.prems have inv: "\<forall>k \<in> fst ` set (cells ?loc). snd k < uuid_calls ?g"
      by (auto simp: less_Suc_eq)
    show ?thesis
      using Cons.IH [OF inv] pos keep step
      by (simp add: map_filter_simps split: option.splits)
  qed
qed

text \<open>
  The result of a build, in closed form: one cell per non-blank label under a fresh key,
  and the matches and errors of the labels in their order. The errors left in the shared
  array by earlier calls are gone.
\<close>

lemma processPaletteLabels_result:
  "processPaletteLabels engine specialEncodings rows start_row start_column g =
     (\<lparr>paletteJson =
         \<lparr>json_name = palette_name,
          json_cells =
            map (\<lambda>(u, pos). ((snd (snd pos), u),
                   emitted engine specialEncodings (bliss_gloss g) start_row start_column pos))
              (enumerate (uuid_calls g) (non_blank rows))\<rparr>,
       result_matches =
         concat (map (pushed engine specialEncodings (bliss_gloss g) start_row start_column)
                   (non_blank rows)),
       result_errors =
         List.map_filter (failure engine specialEncodings (bliss_gloss g) start_row start_column)
           (non_blank rows)\<rparr>,
      g\<lparr>errors :=
           List.map_filter (failure engine specialEncodings (bliss_gloss g) start_row start_column)
             (non_blank rows),
        uuid_calls := uuid_calls g + length (non_blank rows)\<rparr>)"
proof -
  have inv: "\<forall>k \<in> fst ` set (cells \<lparr>cells = [], matchByLabel = []\<rparr>). snd k < uuid_calls (g\<lparr>errors := []\<rparr>)"
    by simp
  show ?thesis
    unfolding processPaletteLabels_def forEach_layout build_fold [OF inv] non_blank_def
    by simp
qed

lemma findByBciAvId_number_ids:
  assumes "list_all (\<lambda>entry. \<exists>n. gloss_id entry = IdNumber n) glosses"
  shows "findByBciAvId l (Some glosses) = Inl (Error (''BciAvId not found for BCI AV ID: '' @ l))"
proof -
  from assms have "find (\<lambda>entry. strict_equals_string (gloss_id entry) l) glosses = None"
    by (induction glosses) (auto simp: strict_equals_string_def)
  then show ?thesis by (simp add: findByBciAvId_def)
qed

lemma findByBciAvId_found_iff:
  "(\<exists>entry. findByBciAvId l (Some glosses) = Inr entry)
     \<longleftrightarrow> (\<exists>entry \<in> set glosses. gloss_id entry = IdString l)"
proof -
  have "(find (\<lambda>entry. strict_equals_string (gloss_id entry) l) glosses \<noteq> None)
        \<longleftrightarrow> (\<exists>entry \<in> set glosses. gloss_id entry = IdString l)"
    by (induction glosses) (auto simp: strict_equals_string_def split: jsId.splits)
  then show ?thesis
    by (auto simp: findByBciAvId_def split: option.splits)
qed

lemma non_blank_example:
  "non_blank example_layout = [(0, 1, ''cat''), (1, 0, ''7''), (1, 1, ''dog'')]"
  by (simp add: non_blank_def is_label_def layout_labels_def example_layout_def BLANK_CELL_LABEL_def)

lemma failure_7:
  "failure engine specialEncodings (Some cat_gloss) 2 1 (1, 0, ''7'')
     = Some (Error ''BciAvId not found for BCI AV ID: 7'')"
  by (simp add: failure_def attempt_def try_block_def parseInt_7 findByBciAvId_def cat_gloss_def
      strict_equals_string_def Let_def)

lemma string_id_found:
  "processPaletteLabels engine specialEncodings [[''5'']] 2 1
     \<lparr>bliss_gloss = Some cat_gloss, errors = [], uuid_calls = 0\<rparr>
   = (\<lparr>paletteJson = \<lparr>json_name = palette_name,
          json_cells = [((''5'', 0),
             \<lparr>cell_type = cell_type_option,
              options = \<lparr>cell_label = ''cat'', cell_bciAvId = CellNumber (Num 5),
                         rowStart = 2, rowSpan = 1, columnStart = 1, columnSpan = 1\<rparr>\<rparr>)]\<rparr>,
       result_matches = [], result_errors = []\<rparr>,
      \<lparr>bliss_gloss = Some cat_gloss, errors = [], uuid_calls = 1\<rparr>)"
proof -
  have nb: "non_blank [[''5'']] = [(0, 0, ''5'')]"
    by (simp add: non_blank_def is_label_def layout_labels_def BLANK_CELL_LABEL_def)
  have a: "attempt engine specialEncodings (Some cat_gloss) 2 1 (0, 0, ''5'')
     = Inr (\<lparr>cell_type = cell_type_option,
              options = \<lparr>cell_label = ''cat'', cell_bciAvId = CellNumber (Num 5),
                         rowStart = 2, rowSpan = 1, columnStart = 1, columnSpan = 1\<rparr>\<rparr>, [])"
    by (simp add: attempt_def try_block_def parseInt_5 findByBciAvId_def cat_gloss_def
        strict_equals_string_def initial_cell_def Let_def)
  show ?thesis
    by (simp add: processPaletteLabels_result nb a emitted_def pushed_def failure_def
        map_filter_simps enumerate_simps)
qed

lemma not_found_cell_spelled_out:
  "not_found_cell current_row current_column l =
     \<lparr>cell_type = ''ActionBmwCodeCell'',
      options = \<lparr>cell_label = l @ '' NOT FOUND'',
                 cell_bciAvId = CellArray [TNum 15733, TStr ''/'', TNum 14133, TStr '';'',
                                           TNum 9004, TStr ''/'', TNum 25570],
                 rowStart = current_row, rowSpan = 1,
                 columnStart = current_column, columnSpan = 1\<rparr>\<rparr>"
  by (simp add: not_found_cell_def not_found_bciAvId_def cell_type_option_def)

text \<open>
  Claim C5. \<open>processPaletteLabels\<close> returns for every layout, gloss array (fetched or
  not), table of special encodings and regular expression engine: every exception of a
  label's resolution is raised inside the \<open>try\<close> block and ends in its \<open>catch\<close>. One cell
  is emitted per non-blank label, so a failure does not stop the build; the returned
  errors are the exceptions of the failed labels in layout order; and the cell of a
  failed label, stored under the key of the label, has the original label followed by
  \<open>" NOT FOUND"\<close>, the sentinel \<open>[15733, "/", 14133, ";", 9004, "/", 25570]\<close> as its
  \<open>bciAvId\<close> and the grid position of the label.
\<close>

theorem C5_batch_collects_failures:
  "length (json_cells (paletteJson (fst (processPaletteLabels engine specialEncodings rows start_row start_column g))))
     = length (non_blank rows)
   \<and> result_errors (fst (processPaletteLabels engine specialEncodings rows start_row start_column g))
     = List.map_filter (failure engine specialEncodings (bliss_gloss g) start_row start_column)
         (non_blank rows)
   \<and> (\<forall>k r c l e. k < length (non_blank rows) \<and> non_blank rows ! k = (r, c, l)
          \<and> failure engine specialEncodings (bliss_gloss g) start_row start_column (r, c, l) = Some e
        \<longrightarrow> e \<in> set (result_errors (fst (processPaletteLabels engine specialEncodings rows start_row start_column g)))
          \<and> json_cells (paletteJson (fst (processPaletteLabels engine specialEncodings rows
                   start_row start_column g))) ! k
            = ((l, uuid_calls g + k),
               \<lparr>cell_type = ''ActionBmwCodeCell'',
                options = \<lparr>cell_label = l @ '' NOT FOUND'',
                           cell_bciAvId = CellArray [TNum 15733, TStr ''/'', TNum 14133, TStr '';'',
                                                     TNum 9004, TStr ''/'', TNum 25570],
                           rowStart = start_row + r, rowSpan = 1,
                           columnStart = start_column + c, columnSpan = 1\<rparr>\<rparr>))"
proof (intro conjI allI impI)
  show "length (json_cells (paletteJson (fst (processPaletteLabels engine specialEncodings rows start_row start_column g))))
     = length (non_blank rows)"
    by (simp add: processPaletteLabels_result)
  show "result_errors (fst (processPaletteLabels engine specialEncodings rows start_row start_column g))
     = List.map_filter (failure engine specialEncodings (bliss_gloss g) start_row start_column)
         (non_blank rows)"
    by (simp add: processPaletteLabels_result)
next
  fix k r c l e
  assume a: "k < length (non_blank rows) \<and> non_blank rows ! k = (r, c, l)
          \<and> failure engine specialEncodings (bliss_gloss g) start_row start_column (r, c, l) = Some e"
  then have k: "k < length (non_blank rows)" and at: "non_blank rows ! k = (r, c, l)"
    and f: "failure engine specialEncodings (bliss_gloss g) start_row start_column (r, c, l) = Some e"
    by simp_all
  from k at have "(r, c, l) \<in> set (non_blank rows)" by (metis nth_mem)
  with f show "e \<in> set (result_errors (fst (processPaletteLabels engine specialEncodings rows start_row start_column g)))"
    by (force simp: processPaletteLabels_result map_filter_def)
  from k at show "json_cells (paletteJson (fst (processPaletteLabels engine specialEncodings rows
                   start_row start_column g))) ! k
            = ((l, uuid_calls g + k),
               \<lparr>cell_type = ''ActionBmwCodeCell'',
                options = \<lparr>cell_label = l @ '' NOT FOUND'',
                           cell_bciAvId = CellArray [TNum 15733, TStr ''/'', TNum 14133, TStr '';'',
                                                     TNum 9004, TStr ''/'', TNum 25570],
                           rowStart = start_row + r, rowSpan = 1,
                           columnStart = start_column + c, columnSpan = 1\<rparr>\<rparr>)"
    by (simp add: processPaletteLabels_result nth_enumerate_eq emitted_on_failure [OF f]
        not_found_cell_spelled_out)
qed

theorem C5_batch_collects_failures_witness:
  "non_blank example_layout ! 1 = (1, 0, ''7'')
   \<and> failure no_engine Map.empty (bliss_gloss example_globals) 2 1 (1, 0, ''7'')
       = Some (Error ''BciAvId not found for BCI AV ID: 7'')
   \<and> length (json_cells (paletteJson (fst (processPaletteLabels no_engine Map.empty example_layout 2 1
        example_globals)))) = 3
   \<and> Error ''BciAvId not found for BCI AV ID: 7''
       \<in> set (result_errors (fst (processPaletteLabels no_engine Map.empty example_layout 2 1
            example_globals)))
   \<and> json_cells (paletteJson (fst (processPaletteLabels no_engine Map.empty example_layout 2 1
        example_globals))) ! 1
     = ((''7'', 1),
        \<lparr>cell_type = ''ActionBmwCodeCell'',
         options = \<lparr>cell_label = ''7 NOT FOUND'',
                    cell_bciAvId = CellArray [TNum 15733, TStr ''/'', TNum 14133, TStr '';'',
                                              TNum 9004, TStr ''/'', TNum 25570],
                    rowStart = 3, rowSpan = 1, columnStart = 1, columnSpan = 1\<rparr>\<rparr>)"
proof -
  have at: "non_blank example_layout ! 1 = (1, 0, ''7'')" and len: "length (non_blank example_layout) = 3"
    by (simp_all add: non_blank_example)
  have f: "failure no_engine Map.empty (bliss_gloss example_globals) 2 1 (1, 0, ''7'')
       = Some (Error ''BciAvId not found for BCI AV ID: 7'')"
    by (simp add: example_globals_def failure_7)
  have u: "uuid_calls example_globals = 0" by (simp add: example_globals_def)
  note batch = C5_batch_collects_failures [of no_engine Map.empty example_layout 2 1 example_globals]
  from batch have cells: "length (json_cells (paletteJson (fst (processPaletteLabels no_engine
      Map.empty example_layout 2 1 example_globals)))) = 3"
    using len by simp
  from batch have "1 < length (non_blank example_layout) \<and> non_blank example_layout ! 1 = (1, 0, ''7'')
      \<and> failure no_engine Map.empty (bliss_gloss example_globals) 2 1 (1, 0, ''7'')
          = Some (Error ''BciAvId not found for BCI AV ID: 7'')
     \<longrightarrow> Error ''BciAvId not found for BCI AV ID: 7''
          \<in> set (result_errors (fst (processPaletteLabels no_engine Map.empty example_layout 2 1
               example_globals)))
        \<and> json_cells (paletteJson (fst (processPaletteLabels no_engine Map.empty example_layout
               2 1 example_globals))) ! 1
          = ((''7'', uuid_calls example_globals + 1),
              \<lparr>cell_type = ''ActionBmwCodeCell'',
               options = \<lparr>cell_label = ''7'' @ '' NOT FOUND'',
                    cell_bciAvId = CellArray [TNum 15733, TStr ''/'', TNum 14133, TStr '';'',
                                              TNum 9004, TStr ''/'', TNum 25570],
                    rowStart = 2 + 1, rowSpan = 1, columnStart = 1 + 0, columnSpan = 1\<rparr>\<rparr>)"
    by blast
  with at len f cells u show ?thesis by simp
qed

text \<open>
  Claim C10. Whatever the shared array \<open>errors\<close> holds when the build is called, the
  returned errors are those of the layout of this call, as many as it has failed labels;
  the shared array holds the same list afterwards; and a call that follows another call
  returns what it returns on its own.
\<close>

theorem C10_errors_of_this_call:
  "result_errors (fst (processPaletteLabels engine specialEncodings rows start_row start_column g))
     = List.map_filter (failure engine specialEncodings (bliss_gloss g) start_row start_column)
         (non_blank rows)
   \<and> length (result_errors (fst (processPaletteLabels engine specialEncodings rows start_row start_column g)))
     = length (filter (\<lambda>pos. failure engine specialEncodings (bliss_gloss g) start_row start_column pos \<noteq> None)
         (non_blank rows))
   \<and> errors (snd (processPaletteLabels engine specialEncodings rows start_row start_column g))
     = result_errors (fst (processPaletteLabels engine specialEncodings rows start_row start_column g))
   \<and> result_errors (fst (processPaletteLabels engine specialEncodings rows start_row start_column
        (g\<lparr>errors := stale\<rparr>)))
     = result_errors (fst (processPaletteLabels engine specialEncodings rows start_row start_column g))
   \<and> result_errors (fst (processPaletteLabels engine specialEncodings rows start_row start_column
        (snd (processPaletteLabels engine specialEncodings rows' start_row' start_column' g))))
     = result_errors (fst (processPaletteLabels engine specialEncodings rows start_row start_column g))"
  by (simp add: processPaletteLabels_result map_filter_def)

theorem C10_errors_of_this_call_witness:
  "errors example_globals = [Error ''stale'']
   \<and> result_errors (fst (processPaletteLabels no_engine Map.empty example_layout 2 1 example_globals))
     = [Error ''BciAvId not found for BCI AV ID: 7'', Error ''BciAvId not found for label: dog'']"
proof -
  have dog: "failure no_engine Map.empty (Some cat_gloss) 2 1 (1, 1, ''dog'')
     = Some (Error ''BciAvId not found for label: dog'')"
    by (simp add: failure_def attempt_def try_block_def parseInt_dog findBciAvId_def js_in_def
        Object_prototype_keys_def cat_gloss_def wordMatchRegExp_def syntaxCharacters_def
        regexp_test_def matches_at_def atom_of_def atom_matches_def upt_rec Let_def)
  have cat: "failure no_engine Map.empty (Some cat_gloss) 2 1 (0, 1, ''cat'') = None"
    by (simp add: failure_def attempt_def try_block_def parseInt_def isStrWhiteSpaceChar_def
        radix_digit_def digit_of_def findBciAvId_def js_in_def
        Object_prototype_keys_def cat_gloss_def wordMatchRegExp_def syntaxCharacters_def
        first_bciAvId_def Let_def)
  from C10_errors_of_this_call [of no_engine Map.empty example_layout 2 1 example_globals]
  show ?thesis using dog cat failure_7
    by (simp add: non_blank_example example_globals_def map_filter_simps)
qed

text \<open>
  Claim C3. The numeric branch looks the label up with \<open>entry.id === label\<close>, the label
  being a string. With the id of the entry stored as the number 5, the label \<open>"5"\<close> is
  not found: the build records the error and emits the placeholder, where the claim
  promises the cell with \<open>bciAvId = 5\<close> and the label \<open>cat\<close> (which is what it emits when
  the id is the string \<open>"5"\<close>, see \<open>string_id_found\<close>; no numeric id is ever found, see
  \<open>findByBciAvId_number_ids\<close>, and a label is found exactly when some entry's id is that
  very string, see \<open>findByBciAvId_found_iff\<close>).
\<close>

theorem C3_number_id_not_found:
  "processPaletteLabels engine specialEncodings [[''5'']] 2 1
     \<lparr>bliss_gloss = Some cat_gloss_number, errors = [], uuid_calls = 0\<rparr>
   = (\<lparr>paletteJson = \<lparr>json_name = palette_name,
                        json_cells = [((''5'', 0), not_found_cell 2 1 ''5'')]\<rparr>,
       result_matches = [],
       result_errors = [Error ''BciAvId not found for BCI AV ID: 5'']\<rparr>,
      \<lparr>bliss_gloss = Some cat_gloss_number,
       errors = [Error ''BciAvId not found for BCI AV ID: 5''], uuid_calls = 1\<rparr>)"
proof -
  have nb: "non_blank [[''5'']] = [(0, 0, ''5'')]"
    by (simp add: non_blank_def is_label_def layout_labels_def BLANK_CELL_LABEL_def)
  have "list_all (\<lambda>entry. \<exists>n. gloss_id entry = IdNumber n) cat_gloss_number"
    by (simp add: cat_gloss_number_def)
  from findByBciAvId_number_ids [OF this, of "''5''"]
  have f: "failure engine specialEncodings (Some cat_gloss_number) 2 1 (0, 0, ''5'')
     = Some (Error ''BciAvId not found for BCI AV ID: 5'')"
    by (simp add: failure_def attempt_def try_block_def parseInt_5 Let_def)
  show ?thesis
    by (simp add: processPaletteLabels_result nb f emitted_on_failure [OF f]
        pushed_on_failure [OF f] map_filter_simps enumerate_simps)
qed

section \<open>Properties of the gloss search\<close>

lemma trim_examples:
  "trim ''   '' = []" "trim '' 12 '' = ''12''" "trim ''cat'' = ''cat''"
  by (simp_all add: trim_def isStrWhiteSpaceChar_def)

text \<open>
  Claim C8. \<open>searchGloss\<close> splits three ways on the trimmed text of the field: empty, it
  renders no matches with \<open>noSearchTerm = true\<close>; not empty and a number (\<open>Number\<close> of it
  is not \<open>NaN\<close>), it renders what \<open>findCompositionsUsingId\<close> returns for the number;
  otherwise it renders what \<open>findBciAvId\<close> returns for the text; \<open>noSearchTerm\<close> is true
  in the first case only.
\<close>

theorem C8_search_term_three_way:
  "(trim field = [] \<longrightarrow>
      searchGloss Number isNaN labelSearch idSearch field
        = Inr \<lparr>matches = [], noSearchTerm = True, searchTerm = []\<rparr>)
   \<and> (trim field \<noteq> [] \<and> \<not> isNaN (Number (trim field)) \<longrightarrow>
      searchGloss Number isNaN labelSearch idSearch field
        = map_sum id (\<lambda>found. \<lparr>matches = found, noSearchTerm = False, searchTerm = trim field\<rparr>)
            (idSearch (Number (trim field))))
   \<and> (trim field \<noteq> [] \<and> isNaN (Number (trim field)) \<longrightarrow>
      searchGloss Number isNaN labelSearch idSearch field
        = map_sum id (\<lambda>found. \<lparr>matches = found, noSearchTerm = False, searchTerm = trim field\<rparr>)
            (labelSearch (trim field)))
   \<and> (\<forall>rendered. searchGloss Number isNaN labelSearch idSearch field = Inr rendered \<longrightarrow>
         (noSearchTerm rendered \<longleftrightarrow> trim field = [])
       \<and> (noSearchTerm rendered \<longrightarrow> matches rendered = []))"
  by (auto simp: searchGloss_def Let_def split: sum.splits)

theorem C8_search_term_three_way_witness:
  "trim ''   '' = []
   \<and> searchGloss example_Number example_isNaN example_label_search example_id_search ''   ''
       = Inr \<lparr>matches = [], noSearchTerm = True, searchTerm = []\<rparr>
   \<and> trim '' 12 '' = ''12'' \<and> \<not> example_isNaN (example_Number ''12'')
   \<and> searchGloss example_Number example_isNaN example_label_search example_id_search '' 12 ''
       = Inr \<lparr>matches = [''compositions using the id''], noSearchTerm = False, searchTerm = ''12''\<rparr>
   \<and> trim ''cat'' = ''cat'' \<and> example_isNaN (example_Number ''cat'')
   \<and> searchGloss example_Number example_isNaN example_label_search example_id_search ''cat''
       = Inr \<lparr>matches = [''label cat''], noSearchTerm = False, searchTerm = ''cat''\<rparr>"
proof -
  have n12: "\<not> example_isNaN (example_Number ''12'')" and ncat: "example_isNaN (example_Number ''cat'')"
    by (simp_all add: example_isNaN_def example_Number_def)
  note t = C8_search_term_three_way [of _ example_Number example_isNaN example_label_search
      example_id_search]
  from t [of "''   ''"] trim_examples(1)
  have a: "searchGloss example_Number example_isNaN example_label_search example_id_search ''   ''
       = Inr \<lparr>matches = [], noSearchTerm = True, searchTerm = []\<rparr>"
    by simp
  from t [of "'' 12 ''"] trim_examples(2) n12
  have b: "searchGloss example_Number example_isNaN example_label_search example_id_search '' 12 ''
       = Inr \<lparr>matches = [''compositions using the id''], noSearchTerm = False, searchTerm = ''12''\<rparr>"
    by (simp add: example_id_search_def)
  from t [of "''cat''"] trim_examples(3) ncat
  have c: "searchGloss example_Number example_isNaN example_label_search example_id_search ''cat''
       = Inr \<lparr>matches = [''label cat''], noSearchTerm = False, searchTerm = ''cat''\<rparr>"
    by (simp add: example_label_search_def)
  from a b c n12 ncat trim_examples show ?thesis by simp
qed

end
